theory Spec2Isabelle
  imports Complex_Main "HOL-Library.AList"
begin

section \<open>Python values shared by the embedded functions\<close>

text \<open>
  Byte strings and text are both character lists: every text the embedded code
  encodes is ASCII, so \<open>str.encode\<close> and \<open>bytes.decode\<close> are the identity.
\<close>

type_synonym bytes = string

text \<open>
  Exceptions are values. An exception is its class and the message it was raised
  with (\<open>None\<close> when the class is raised without arguments, as in
  \<open>raise Policy.Unpaid\<close>). An exception of a class that is not listed is held
  under the nearest listed class it derives from, the class an \<open>except\<close> clause
  matches it by (\<open>ConnectTimeout\<close> under \<open>RequestException\<close>,
  \<open>ConnectionRefusedError\<close> under \<open>ConnectionError\<close>); \<open>OtherException\<close> holds a
  class that derives from none of them.
\<close>

datatype exc_class =
    PolicyException
  | NotEnoughUrsulas
  | EnactmentError
  | Unpaid
  | NotEnoughBlockchainUrsulas
  | InvalidPolicyValue
  | ValueError
  | TypeError
  | AttributeError
  | RuntimeError
  | ZeroDivisionError
  | OverflowError
  | KeyError
  | IndexError
  | UnknownIPAddress
  | OutOfValues
  | TimedOut
  | ConnectionError
  | TimeoutError
  | RequestException
  | HTTPError
  | OtherException string

datatype exn = Exc exc_class "string option"

fun exc_class_of :: "exn \<Rightarrow> exc_class" where
  "exc_class_of (Exc c m) = c"

text \<open>\<open>str(e)\<close> of an exception: its message, or the empty text.\<close>

fun str_exn :: "exn \<Rightarrow> string" where
  "str_exn (Exc c None) = []"
| "str_exn (Exc c (Some m)) = m"

text \<open>The direct base class of each exception class of \<open>policies.py\<close>.\<close>

fun base_class :: "exc_class \<Rightarrow> exc_class option" where
  "base_class NotEnoughUrsulas = Some PolicyException"
| "base_class EnactmentError = Some PolicyException"
| "base_class Unpaid = Some PolicyException"
| "base_class NotEnoughBlockchainUrsulas = Some NotEnoughUrsulas"
| "base_class InvalidPolicyValue = Some ValueError"
| "base_class UnknownIPAddress = Some RuntimeError"
| "base_class HTTPError = Some RequestException"
| "base_class c = None"

datatype log_entry = Debug string | Info string | Warn string

text \<open>Decimal text of integers, as an f-string prints them.\<close>

definition digit_char :: "nat \<Rightarrow> char" where
  "digit_char d = ''0123456789'' ! d"

function str_nat :: "nat \<Rightarrow> string" where
  "str_nat n =
     (if n < 10 then [digit_char n]
      else str_nat (n div 10) @ [digit_char (n mod 10)])"
  by pat_completeness auto
termination
  by (relation "measure (\<lambda>n. n)") auto

declare str_nat.simps [simp del]

definition str_int :: "int \<Rightarrow> string" where
  "str_int i = (if i < 0 then CHR ''-'' # str_nat (nat (- i)) else str_nat (nat i))"

definition str_opt_int :: "int option \<Rightarrow> string" where
  "str_opt_int v = (case v of None \<Rightarrow> ''None'' | Some i \<Rightarrow> str_int i)"

text \<open>\<open>sep.join(parts)\<close>.\<close>

fun join :: "string \<Rightarrow> string list \<Rightarrow> string" where
  "join sep [] = []"
| "join sep [x] = x"
| "join sep (x # y # ys) = x @ sep @ join sep (y # ys)"

text \<open>Floor division \<open>a // b\<close>; \<open>div\<close> on \<open>int\<close> rounds down as Python does.\<close>

definition floordiv :: "int \<Rightarrow> int \<Rightarrow> exn + int" where
  "floordiv a b =
     (if b = 0 then Inl (Exc ZeroDivisionError (Some ''integer division or modulo by zero''))
      else Inr (a div b))"

section \<open>Fee arithmetic of the paid policy (\<open>BlockchainPolicy\<close>)\<close>

text \<open>\<open>bool(x)\<close> of an optional integer: \<open>None\<close> and \<open>0\<close> are false.\<close>

definition truthy :: "int option \<Rightarrow> bool" where
  "truthy v = (case v of None \<Rightarrow> False | Some i \<Rightarrow> i \<noteq> 0)"

definition is_negative :: "int option \<Rightarrow> bool" where
  "is_negative v = (case v of None \<Rightarrow> False | Some i \<Rightarrow> i < 0)"

text \<open>
  \<open>BlockchainPolicy.generate_policy_parameters(n, payment_periods, value, rate)\<close>.
  The returned \<open>dict(rate=rate, value=value)\<close> is the association list of its two
  entries.
\<close>

definition generate_policy_parameters ::
  "int \<Rightarrow> int \<Rightarrow> int option \<Rightarrow> int option \<Rightarrow> exn + (string \<times> int) list" where
  "generate_policy_parameters n payment_periods val rate =
     (if 0 < length (filter is_negative [Some n, Some payment_periods, val, rate])
      then Inl (Exc InvalidPolicyValue
                 (Some ''Negative policy parameters are not allowed. Be positive.''))
      else if \<not> (truthy val \<noteq> truthy rate) \<and> \<not> (val = Some 0 \<or> rate = Some 0)
      then Inl (Exc InvalidPolicyValue
                 (Some (''Either 'value' or 'rate'  must be provided for policy. Got value: ''
                        @ str_opt_int val @ '' and rate: '' @ str_opt_int rate)))
      else
        (case val of
           None \<Rightarrow>
             (case rate of
                None \<Rightarrow> Inl (Exc TypeError
                  (Some ''unsupported operand type(s) for *: 'NoneType' and 'int' ''))
              | Some r \<Rightarrow> Inr [(''rate'', r), (''value'', r * payment_periods * n)])
         | Some v \<Rightarrow>
             (case floordiv v n of
                Inl e \<Rightarrow> Inl e
              | Inr value_per_node \<Rightarrow>
                  if value_per_node * n \<noteq> v
                  then Inl (Exc InvalidPolicyValue
                         (Some (''Policy value of ('' @ str_int v @ '' wei) cannot be divided by N (''
                                @ str_int n @ '') without a remainder.'')))
                  else
                    (case floordiv value_per_node payment_periods of
                       Inl e \<Rightarrow> Inl e
                     | Inr r \<Rightarrow>
                         if r * payment_periods \<noteq> value_per_node
                         then Inl (Exc InvalidPolicyValue
                                (Some (''Policy value of ('' @ str_int value_per_node
                                       @ '' wei) per node cannot be divided by duration (''
                                       @ str_int payment_periods
                                       @ '' periods) without a remainder.'')))
                         else Inr [(''rate'', r), (''value'', v)]))))"

section \<open>Collaborators, as the observations the code makes of them\<close>

text \<open>
  The peer (\<open>Ursula\<close>), the transport's response, the verifying key and the
  timestamp are objects of other modules. Each is a record of what
  \<open>policies.py\<close> and \<open>networking.py\<close> read from it: an attribute, the result of
  a method without arguments, or its \<open>str(...)\<close> and \<open>bytes(...)\<close> forms. A response
  need not have the attribute \<open>status\<close> that \<open>policies.py\<close> reads besides
  \<open>status_code\<close>: the response of the \<open>requests\<close> library has \<open>status_code\<close>,
  \<open>content\<close> and \<open>text\<close> and no \<open>status\<close>, the response of a test client has
  both. \<open>status\<close> is \<open>None\<close> for a response without the attribute.
\<close>

record Ursula =
  checksum_address :: string
  rest_url :: string
  ursula_str :: string

record Response =
  status_code :: int
  status :: "string option"
  content :: bytes
  response_text :: string
  response_str :: string

record PublicKey =
  key_bytes :: bytes
  key_str :: string

record MayaDT =
  iso8601 :: string
  epoch :: int

record SignatureStamp =
  as_umbral_pubkey :: PublicKey

definition stamp_bytes :: "SignatureStamp \<Rightarrow> bytes" where
  "stamp_bytes s = key_bytes (as_umbral_pubkey s)"

record Character =
  stamp :: SignatureStamp
  known_nodes :: "(string \<times> Ursula) list"

record VerifiedKeyFrag =
  kfrag_bytes :: bytes

text \<open>
  A Python \<open>dict\<close> is an association list with distinct keys, in insertion order:
  \<open>AList.update\<close> overwrites the value of a key that is present and appends a new
  key, as assignment to \<open>d[k]\<close> does.
\<close>

type_synonym ('k, 'v) dict = "('k \<times> 'v) list"

definition dict_of_items :: "('k \<times> 'v) list \<Rightarrow> ('k, 'v) dict" where
  "dict_of_items items = foldl (\<lambda>d (k, v). AList.update k v d) [] items"

section \<open>\<open>Arrangement\<close>\<close>

record Arrangement =
  expiration :: MayaDT
  publisher_verifying_key :: PublicKey

definition from_publisher :: "Character \<Rightarrow> MayaDT \<Rightarrow> Arrangement" where
  "from_publisher publisher expires =
     \<lparr>expiration = expires, publisher_verifying_key = as_umbral_pubkey (stamp publisher)\<rparr>"

definition Arrangement_repr :: "Arrangement \<Rightarrow> string" where
  "Arrangement_repr a = ''Arrangement(publisher='' @ key_str (publisher_verifying_key a) @ '')''"

text \<open>
  \<open>bytestring_splitter\<close> is a third-party package, not a module of the
  repository. \<open>VariableLengthBytestring\<close> prefixes a message with its length as
  four big-endian bytes and refuses a message whose length does not fit; a
  \<open>BytestringSplitter\<close> cuts its fields off the front of the input in order, a
  fixed-size field by its size and a variable-length field by its four-byte header,
  and leaves bytes that follow the last field aside. An input too short for a field
  is an error here; the round trip below runs the splitter on the bytes that
  \<open>__bytes__\<close> produced, which are never too short.
\<close>

definition to_bytes4 :: "nat \<Rightarrow> bytes" where
  "to_bytes4 n =
     [char_of (n div 16777216), char_of (n div 65536), char_of (n div 256), char_of n]"

definition from_bytes4 :: "bytes \<Rightarrow> nat" where
  "from_bytes4 h = foldl (\<lambda>acc c. acc * 256 + of_char c) 0 h"

definition VariableLengthBytestring :: "bytes \<Rightarrow> exn + bytes" where
  "VariableLengthBytestring message =
     (if length message < 4294967296 then Inr (to_bytes4 (length message) @ message)
      else Inl (Exc ValueError (Some ''Your message is too long.'')))"

definition split_fixed :: "nat \<Rightarrow> bytes \<Rightarrow> exn + (bytes \<times> bytes)" where
  "split_fixed field_size input =
     (if length input < field_size
      then Inl (Exc (OtherException ''BytestringSplittingError'') (Some ''Not enough bytes''))
      else Inr (take field_size input, drop field_size input))"

definition split_variable :: "bytes \<Rightarrow> exn + (bytes \<times> bytes)" where
  "split_variable input =
     (case split_fixed 4 input of
        Inl e \<Rightarrow> Inl e
      | Inr (header, rest) \<Rightarrow> split_fixed (from_bytes4 header) rest)"

text \<open>
  \<open>Arrangement.splitter\<close>: the key field of \<open>key_splitter\<close> (its size,
  \<open>PublicKey.serialized_size()\<close>, and the parser \<open>PublicKey.from_bytes\<close> are
  parameters), then the variable-length expiration.
\<close>

definition splitter ::
  "nat \<Rightarrow> (bytes \<Rightarrow> exn + PublicKey) \<Rightarrow> bytes \<Rightarrow> exn + (PublicKey \<times> bytes)" where
  "splitter key_size PublicKey_from_bytes input =
     (case split_fixed key_size input of
        Inl e \<Rightarrow> Inl e
      | Inr (key_part, rest) \<Rightarrow>
          (case PublicKey_from_bytes key_part of
             Inl e \<Rightarrow> Inl e
           | Inr key \<Rightarrow>
               (case split_variable rest of
                  Inl e \<Rightarrow> Inl e
                | Inr (expiration_bytes, remainder) \<Rightarrow> Inr (key, expiration_bytes))))"

text \<open>\<open>Arrangement.__bytes__\<close>.\<close>

definition Arrangement_bytes :: "Arrangement \<Rightarrow> exn + bytes" where
  "Arrangement_bytes a =
     (case VariableLengthBytestring (iso8601 (expiration a)) of
        Inl e \<Rightarrow> Inl e
      | Inr framed \<Rightarrow> Inr (key_bytes (publisher_verifying_key a) @ framed))"

text \<open>
  \<open>Arrangement.from_bytes\<close>; \<open>maya.MayaDT.from_iso8601\<close> is a parameter.
\<close>

definition Arrangement_from_bytes ::
  "nat \<Rightarrow> (bytes \<Rightarrow> exn + PublicKey) \<Rightarrow> (string \<Rightarrow> exn + MayaDT) \<Rightarrow> bytes
   \<Rightarrow> exn + Arrangement" where
  "Arrangement_from_bytes key_size PublicKey_from_bytes from_iso8601 arrangement_as_bytes =
     (case splitter key_size PublicKey_from_bytes arrangement_as_bytes of
        Inl e \<Rightarrow> Inl e
      | Inr (key, expiration_bytes) \<Rightarrow>
          (case from_iso8601 expiration_bytes of
             Inl e \<Rightarrow> Inl e
           | Inr expires \<Rightarrow> Inr \<lparr>expiration = expires, publisher_verifying_key = key\<rparr>))"

section \<open>True division and \<open>math.ceil\<close>\<close>

text \<open>
  \<open>a / b\<close> on two Python integers is a float: the binary64 number nearest to the
  exact quotient, ties to the even significand, and \<open>OverflowError\<close> when that
  number is out of range. A finite binary64 number is a rational and is held
  exactly. \<open>bit_length\<close> is \<open>int.bit_length\<close>.
\<close>

function bit_length :: "nat \<Rightarrow> nat" where
  "bit_length k = (if k = 0 then 0 else Suc (bit_length (k div 2)))"
  by pat_completeness auto
termination
  by (relation "measure (\<lambda>k. k)") auto

declare bit_length.simps [simp del]

definition round_half_even :: "rat \<Rightarrow> int" where
  "round_half_even q =
     (let f = \<lfloor>q\<rfloor>; d = q - of_int f
      in if d < 1 / 2 then f else if 1 / 2 < d then f + 1 else if even f then f else f + 1)"

text \<open>For \<open>0 < x\<close>: the exponent \<open>e\<close> with \<open>2 ^ e \<le> x < 2 ^ (e + 1)\<close>.\<close>

definition binary_exponent :: "rat \<Rightarrow> int" where
  "binary_exponent x =
     (let (p, q) = quotient_of x;
          d = int (bit_length (nat p)) - int (bit_length (nat q))
      in if 2 powi d \<le> x then d else d - 1)"

text \<open>
  Rounding to binary64: 53 significant bits, and the fixed spacing \<open>2 ^ -1074\<close>
  below the smallest normal number \<open>2 ^ -1022\<close>.
\<close>

definition float_round :: "rat \<Rightarrow> rat" where
  "float_round x =
     (if x = 0 then 0
      else let e = max (binary_exponent \<bar>x\<bar>) (- 1022);
               ulp = 2 powi (e - 52)
           in sgn x * of_int (round_half_even (\<bar>x\<bar> / ulp)) * ulp)"

definition truediv :: "int \<Rightarrow> int \<Rightarrow> exn + rat" where
  "truediv a b =
     (if b = 0 then Inl (Exc ZeroDivisionError (Some ''division by zero''))
      else let y = float_round (of_int a / of_int b)
           in if 2 ^ 1024 \<le> \<bar>y\<bar>
              then Inl (Exc OverflowError (Some ''integer division result too large for a float''))
              else Inr y)"

definition math_ceil :: "rat \<Rightarrow> int" where
  "math_ceil y = \<lceil>y\<rceil>"

section \<open>\<open>WorkerPool\<close>\<close>

text \<open>
  Modelled from the spec: \<open>WorkerPool\<close> (\<open>nucypher.utilities.concurrency\<close>) is not
  under \<open>src/\<close>. The pool holds the values it was given, its target number of
  successes and its two tallies (spec 3: for each dispatched value exactly one
  outcome, success(value, result) or failure(value, error detail)); timeouts are
  real time and are left out.
\<close>

record ('v, 'r) WorkerPool =
  pool_values :: "'v list"
  target_successes :: int
  threadpool_size :: int
  successes :: "('v, 'r) dict"
  failures :: "('v, exn) dict"

text \<open>
  Modelled from the spec: how the absent \<open>WorkerPool\<close> records the outcome of one
  task. The spec (4.3): ``an operation's outcome is recorded exactly once (success
  if op returns without error [...]). A value producing an exception is recorded as
  a failure with the error detail.''
\<close>

definition WorkerPool_run_task ::
  "('v \<Rightarrow> log_entry list \<times> (exn + 'r)) \<Rightarrow> 'v \<Rightarrow> ('v, 'r) WorkerPool
   \<Rightarrow> log_entry list \<times> ('v, 'r) WorkerPool" where
  "WorkerPool_run_task worker v pool =
     (case worker v of
        (logged, Inr result) \<Rightarrow> (logged, pool\<lparr>successes := AList.update v result (successes pool)\<rparr>)
      | (logged, Inl e) \<Rightarrow> (logged, pool\<lparr>failures := AList.update v e (failures pool)\<rparr>))"

section \<open>\<open>TreasureMapPublisher\<close>\<close>

record TreasureMapPublisher =
  total :: nat
  block_until_this_many_are_complete :: int
  worker_pool :: "(Ursula, Response) WorkerPool"

text \<open>
  \<open>TreasureMapPublisher.__init__\<close>: the quorum
  \<open>math.ceil(len(nodes) * percent_to_complete_before_release / 100)\<close> and the pool
  over all nodes (\<open>AllAtOnceFactory(nodes)\<close>).
\<close>

definition TreasureMapPublisher_init ::
  "Ursula list \<Rightarrow> int \<Rightarrow> int \<Rightarrow> exn + TreasureMapPublisher" where
  "TreasureMapPublisher_init nodes percent_to_complete_before_release pool_size =
     (case truediv (int (length nodes) * percent_to_complete_before_release) 100 of
        Inl e \<Rightarrow> Inl e
      | Inr ratio \<Rightarrow>
          Inr \<lparr>total = length nodes,
               block_until_this_many_are_complete = math_ceil ratio,
               worker_pool =
                 \<lparr>pool_values = nodes,
                  target_successes = math_ceil ratio,
                  threadpool_size = pool_size,
                  successes = [],
                  failures = []\<rparr>\<rparr>)"

text \<open>
  The worker \<open>put_treasure_map_on_node\<close> defined inside \<open>__init__\<close>; the transport
  call \<open>network_middleware.put_treasure_map_on_node\<close> is a parameter that returns the
  response or the exception it raises. The message for a status other than 201
  formats \<open>response.status\<close>, after the \<open>try\<close>: on a response without that
  attribute the worker raises \<open>AttributeError\<close>.
\<close>

definition put_treasure_map_on_node ::
  "(Ursula \<Rightarrow> bytes \<Rightarrow> exn + Response) \<Rightarrow> bytes \<Rightarrow> Ursula
   \<Rightarrow> log_entry list \<times> (exn + Response)" where
  "put_treasure_map_on_node network_middleware treasure_map_bytes node =
     (case network_middleware node treasure_map_bytes of
        Inl e \<Rightarrow>
          ([Warn (''Putting treasure map on '' @ ursula_str node @ '' failed: '' @ str_exn e)],
           Inl e)
      | Inr response \<Rightarrow>
          if status_code response \<noteq> 201
          then
            (case status response of
               None \<Rightarrow>
                 ([], Inl (Exc AttributeError
                        (Some ([CHR 0x27] @ ''Response'' @ [CHR 0x27]
                               @ '' object has no attribute ''
                               @ [CHR 0x27] @ ''status'' @ [CHR 0x27]))))
             | Some status_text \<Rightarrow>
                 ([Warn (''Putting treasure map on '' @ ursula_str node
                         @ '' failed with response status: '' @ status_text)],
                  Inr response))
          else ([], Inr response))"

text \<open>
  The dictionary \<open>responses\<close> that \<open>block_until_success_is_reasonably_likely\<close>
  builds from the successes: the response of each peer under the peer's checksum
  address.
\<close>

abbreviation responses_of :: "(Ursula, Response) dict \<Rightarrow> (string, Response) dict" where
  "responses_of got \<equiv>
     dict_of_items (map (\<lambda>(ursula, status). (checksum_address ursula, status)) got)"

text \<open>
  \<open>block_until_success_is_reasonably_likely\<close>. Its inputs are what the pool gives
  it: the outcome of \<open>block_until_target_successes()\<close> (\<open>None\<close> when it returns,
  the exception when it raises) and the two snapshots of the successes the method
  takes, \<open>self.completed\<close> first and \<open>get_successes()\<close> second.
\<close>

definition block_until_success_is_reasonably_likely ::
  "exn option \<Rightarrow> (Ursula, Response) dict \<Rightarrow> (Ursula, Response) dict
   \<Rightarrow> log_entry list \<times> (exn + (Ursula, Response) dict)" where
  "block_until_success_is_reasonably_likely waited completed got_successes =
     (case waited of
        Some e \<Rightarrow> ([], Inl e)
      | None \<Rightarrow>
          let contacted = Debug (''The minimal amount of nodes (''
                @ str_int (int (length completed))
                @ '') were contacted while blocking for treasure map publication.'');
              responses = dict_of_items
                (map (\<lambda>(ursula, status). (checksum_address ursula, status)) got_successes)
          in if \<not> list_all (\<lambda>response. status_code response = 201) (map snd responses)
             then
               let report = join [CHR 0x0A]
                     (map (\<lambda>(address, status). address @ '': '' @ response_str status) responses);
                   failed = Debug (''Policy enactment failed. Request statuses:'' @ [CHR 0x0A] @ report);
                   claims_of_freeloading =
                     list_ex (\<lambda>response. status_code response = 402) (map snd responses)
               in if claims_of_freeloading
                  then ([contacted, failed], Inl (Exc Unpaid None))
                  else ([contacted, failed], Inl (Exc EnactmentError (Some report)))
             else ([contacted], Inr completed))"

section \<open>\<open>Policy\<close>\<close>

record Policy =
  policy_m :: int
  policy_n :: nat
  publisher :: Character
  label :: bytes
  bob :: Character
  kfrags :: "VerifiedKeyFrag list"
  public_key :: PublicKey
  policy_expiration :: MayaDT
  policy_id :: bytes
  hrac :: bytes

text \<open>
  Modelled from the spec: \<open>TreasureMap.derive_hrac\<close> (\<open>nucypher.policy.maps\<close>) is not
  under \<open>src/\<close>. The spec (3): hrac is a ``hash of publisher key, recipient key,
  label''. The hash function is a parameter.
\<close>

definition derive_hrac ::
  "(bytes \<times> bytes \<times> bytes \<Rightarrow> bytes) \<Rightarrow> PublicKey \<Rightarrow> PublicKey \<Rightarrow> bytes \<Rightarrow> bytes" where
  "derive_hrac hash_of publisher_key bob_key lbl =
     hash_of (key_bytes publisher_key, key_bytes bob_key, lbl)"

text \<open>
  \<open>Policy.__init__\<close>; \<open>construct_policy_id\<close> (\<open>nucypher.crypto.utils\<close>) is a
  parameter.
\<close>

definition Policy_init ::
  "(bytes \<Rightarrow> bytes \<Rightarrow> bytes) \<Rightarrow> (bytes \<times> bytes \<times> bytes \<Rightarrow> bytes)
   \<Rightarrow> Character \<Rightarrow> bytes \<Rightarrow> MayaDT \<Rightarrow> Character \<Rightarrow> VerifiedKeyFrag list \<Rightarrow> PublicKey \<Rightarrow> int
   \<Rightarrow> Policy" where
  "Policy_init construct_policy_id hash_of alice lbl expires recipient frags pk threshold =
     \<lparr>policy_m = threshold,
      policy_n = length frags,
      publisher = alice,
      label = lbl,
      bob = recipient,
      kfrags = frags,
      public_key = pk,
      policy_expiration = expires,
      policy_id = construct_policy_id lbl (stamp_bytes (stamp recipient)),
      hrac = derive_hrac hash_of (as_umbral_pubkey (stamp alice))
               (as_umbral_pubkey (stamp recipient)) lbl\<rparr>"

text \<open>The two variants, and the hook \<open>_not_enough_ursulas_exception\<close> of each.\<close>

datatype policy_kind = FederatedPolicy | BlockchainPolicy

fun not_enough_ursulas_exception :: "policy_kind \<Rightarrow> exc_class" where
  "not_enough_ursulas_exception FederatedPolicy = NotEnoughUrsulas"
| "not_enough_ursulas_exception BlockchainPolicy = NotEnoughBlockchainUrsulas"

text \<open>
  \<open>Policy._propose_arrangement\<close>. The transport call
  \<open>network_middleware.propose_arrangement\<close> and the publisher's \<open>verify_from\<close> (on
  the peer, the arrangement's bytes and the signature bytes of the response) are
  parameters; \<open>verify_from\<close> gives the exception it raises, if any.
\<close>

definition propose_arrangement ::
  "Policy \<Rightarrow> (Ursula \<Rightarrow> Arrangement \<Rightarrow> exn + Response) \<Rightarrow> (Ursula \<Rightarrow> bytes \<Rightarrow> bytes \<Rightarrow> exn option)
   \<Rightarrow> string \<Rightarrow> log_entry list \<times> (exn + Ursula \<times> Arrangement)" where
  "propose_arrangement self network_middleware verify_from address =
     (case map_of (known_nodes (publisher self)) address of
        None \<Rightarrow> ([], Inl (Exc RuntimeError (Some (address @ '' is not known''))))
      | Some ursula \<Rightarrow>
          let arrangement = from_publisher (publisher self) (policy_expiration self);
              proposing = Debug (''Proposing arrangement '' @ Arrangement_repr arrangement
                                 @ '' to '' @ ursula_str ursula)
          in (case network_middleware ursula arrangement of
                Inl e \<Rightarrow> ([proposing], Inl e)
              | Inr negotiation_response \<Rightarrow>
                  let status_of = status_code negotiation_response
                  in if status_of = 200
                     then
                       (case Arrangement_bytes arrangement of
                          Inl e \<Rightarrow> ([proposing], Inl e)
                        | Inr arrangement_bytes \<Rightarrow>
                            (case verify_from ursula arrangement_bytes
                                    (content negotiation_response) of
                               Some e \<Rightarrow> ([proposing], Inl e)
                             | None \<Rightarrow>
                                 ([proposing,
                                   Debug (''Arrangement accepted by '' @ ursula_str ursula)],
                                  Inr (ursula, arrangement))))
                     else
                       let message = ''Proposing arrangement to '' @ ursula_str ursula
                                     @ '' failed with '' @ str_int status_of
                       in ([proposing, Debug message],
                           Inl (Exc RuntimeError (Some message)))))"

text \<open>
  \<open>Policy._make_arrangements\<close>, from the end of the pool's wait on. Its inputs are
  what the pool gives it: the outcome of \<open>block_until_target_successes()\<close> (the
  successes, or the exception raised) and the snapshots \<open>get_successes()\<close> and
  \<open>get_failures()\<close>; a failure holds the exception value of its \<open>exc_info\<close> triple.
\<close>

definition make_arrangements ::
  "policy_kind \<Rightarrow> nat \<Rightarrow> exn + (string, Ursula \<times> Arrangement) dict
   \<Rightarrow> (string, Ursula \<times> Arrangement) dict \<Rightarrow> (string, exn) dict
   \<Rightarrow> log_entry list \<times> (exn + (Ursula, Arrangement) dict)" where
  "make_arrangements kind shares waited got_successes got_failures =
     (case (case waited of
              Inr s \<Rightarrow> Inr s
            | Inl e \<Rightarrow>
                if exc_class_of e = OutOfValues \<or> exc_class_of e = TimedOut
                then Inr got_successes else Inl e) of
        Inl e \<Rightarrow> ([], Inl e)
      | Inr succeeded \<Rightarrow>
          let accepted_arrangements = dict_of_items (map snd succeeded);
              accepted_addresses =
                join '', '' (map (\<lambda>(ursula, a). checksum_address ursula) accepted_arrangements)
          in if length accepted_arrangements < shares
             then
               let rejected_proposals = join [CHR 0x0A]
                     (map (\<lambda>(address, v). address @ '': '' @ str_exn v) got_failures)
               in ([Debug (''Could not find enough Ursulas to accept proposals.'' @ [CHR 0x0A]
                           @ ''Accepted: '' @ accepted_addresses @ [CHR 0x0A]
                           @ ''Rejected:'' @ [CHR 0x0A] @ rejected_proposals)],
                   Inl (Exc (not_enough_ursulas_exception kind) None))
             else
               ([Debug (''Finished proposing arrangements; accepted: '' @ accepted_addresses)],
                Inr accepted_arrangements))"

section \<open>\<open>BlockchainPolicy\<close>: the constructor and its fee check\<close>

record BlockchainPolicy = Policy +
  policy_payment_periods :: int
  policy_value :: int
  policy_rate :: int

text \<open>\<open>BlockchainPolicy._validate_fee_value\<close>.\<close>

definition validate_fee_value :: "BlockchainPolicy \<Rightarrow> exn + unit" where
  "validate_fee_value self =
     (case floordiv (policy_value self) (int (policy_n self)) of
        Inl e \<Rightarrow> Inl e
      | Inr per_node \<Rightarrow>
          (case floordiv per_node (policy_payment_periods self) of
             Inl e \<Rightarrow> Inl e
           | Inr rate_per_period \<Rightarrow>
               let recalculated_value =
                     policy_payment_periods self * rate_per_period * int (policy_n self)
               in if recalculated_value \<noteq> policy_value self
                  then Inl (Exc ValueError
                         (Some (''Invalid policy value calculation - ''
                                @ str_int (policy_value self)
                                @ '' can't be divided into '' @ str_int (int (policy_n self))
                                @ '' staker payments per period for ''
                                @ str_int (policy_payment_periods self)
                                @ '' periods without a remainder'')))
                  else Inr ()))"

text \<open>\<open>BlockchainPolicy.__init__\<close>.\<close>

definition BlockchainPolicy_init ::
  "(bytes \<Rightarrow> bytes \<Rightarrow> bytes) \<Rightarrow> (bytes \<times> bytes \<times> bytes \<Rightarrow> bytes)
   \<Rightarrow> int \<Rightarrow> int \<Rightarrow> int
   \<Rightarrow> Character \<Rightarrow> bytes \<Rightarrow> MayaDT \<Rightarrow> Character \<Rightarrow> VerifiedKeyFrag list \<Rightarrow> PublicKey \<Rightarrow> int
   \<Rightarrow> exn + BlockchainPolicy" where
  "BlockchainPolicy_init construct_policy_id hash_of val rate_arg periods
       alice lbl expires recipient frags pk threshold =
     (let self = Policy.extend
            (Policy_init construct_policy_id hash_of alice lbl expires recipient frags pk threshold)
            (BlockchainPolicy.fields periods val rate_arg)
      in case validate_fee_value self of
           Inl e \<Rightarrow> Inl e
         | Inr u \<Rightarrow> Inr self)"

section \<open>Finding the external IP address (\<open>networking.py\<close>)\<close>

text \<open>
  The classes of \<open>RequestErrors\<close>, which \<open>except RequestErrors\<close> catches; an
  exception of one of their subclasses is held under the class it derives from.
\<close>

definition is_request_error :: "exc_class \<Rightarrow> bool" where
  "is_request_error c =
     (c = ConnectionError \<or> c = TimeoutError \<or> c = RequestException \<or> c = HTTPError)"

text \<open>\<open>if ip:\<close> and \<open>if not rest_host:\<close> on an optional text.\<close>

definition host_found :: "string option \<Rightarrow> bool" where
  "host_found h = (case h of None \<Rightarrow> False | Some s \<Rightarrow> s \<noteq> [])"

text \<open>
  \<open>get_external_ip_from_url_source\<close>; \<open>requests.get\<close> is a parameter that returns the
  response or the exception it raises.
\<close>

definition get_external_ip_from_url_source ::
  "(string \<Rightarrow> exn + Response) \<Rightarrow> string \<Rightarrow> exn + string option" where
  "get_external_ip_from_url_source requests_get url =
     (case requests_get url of
        Inl e \<Rightarrow> if is_request_error (exc_class_of e) then Inr None else Inl e
      | Inr response \<Rightarrow>
          if status_code response = 200 then Inr (Some (response_text response)) else Inr None)"

text \<open>
  \<open>get_external_ip_from_default_teacher\<close>; the table \<open>RestMiddleware.TEACHER_NODES\<close>
  and the contact with the teacher (\<open>Ursula.from_teacher_uri\<close>, then \<open>ping()\<close>) are
  parameters.
\<close>

definition get_external_ip_from_default_teacher ::
  "(string, string list) dict \<Rightarrow> (string \<Rightarrow> exn + Response) \<Rightarrow> string \<Rightarrow> exn + string option" where
  "get_external_ip_from_default_teacher TEACHER_NODES ping_teacher network =
     (case map_of TEACHER_NODES network of
        None \<Rightarrow> Inr None
      | Some [] \<Rightarrow> Inr None
      | Some (top_teacher_url # others) \<Rightarrow>
          (case ping_teacher top_teacher_url of
             Inl e \<Rightarrow> Inl e
           | Inr response \<Rightarrow>
               if status_code response = 200 then Inr (Some (response_text response))
               else Inr None))"

text \<open>
  \<open>random.sample(population, k)\<close> raises \<open>ValueError\<close> when \<open>k\<close> exceeds the size of
  the population; the random choice itself is a parameter.
\<close>

definition random_sample ::
  "('a list \<Rightarrow> nat \<Rightarrow> 'a list) \<Rightarrow> 'a list \<Rightarrow> nat \<Rightarrow> exn + 'a list" where
  "random_sample pick population k =
     (if length population < k
      then Inl (Exc ValueError (Some ''Sample larger than population or is negative''))
      else Inr (pick population k))"

text \<open>The loop of \<open>get_external_ip_from_known_nodes\<close> over the sample.\<close>

fun first_ip_of :: "(string \<Rightarrow> exn + Response) \<Rightarrow> Ursula list \<Rightarrow> exn + string option" where
  "first_ip_of requests_get [] = Inr None"
| "first_ip_of requests_get (node # rest) =
     (case get_external_ip_from_url_source requests_get (rest_url node) of
        Inl e \<Rightarrow> Inl e
      | Inr ip \<Rightarrow> if host_found ip then Inr ip else first_ip_of requests_get rest)"

definition get_external_ip_from_known_nodes ::
  "(Ursula list \<Rightarrow> nat \<Rightarrow> Ursula list) \<Rightarrow> (string \<Rightarrow> exn + Response) \<Rightarrow> Ursula list \<Rightarrow> nat
   \<Rightarrow> exn + string option" where
  "get_external_ip_from_known_nodes pick requests_get nodes sample_size =
     (case random_sample pick nodes sample_size of
        Inl e \<Rightarrow> Inl e
      | Inr sampled \<Rightarrow> first_ip_of requests_get sampled)"

definition get_external_ip_from_centralized_source ::
  "(string \<Rightarrow> exn + Response) \<Rightarrow> exn + string option" where
  "get_external_ip_from_centralized_source requests_get =
     get_external_ip_from_url_source requests_get ''https://ifconfig.me/''"

text \<open>
  \<open>determine_external_ip_address(network, known_nodes)\<close>; \<open>known_nodes=None\<close> is the
  empty list, which is as false as \<open>None\<close> in \<open>if known_nodes:\<close>.
\<close>

definition determine_external_ip_address ::
  "(Ursula list \<Rightarrow> nat \<Rightarrow> Ursula list) \<Rightarrow> (string \<Rightarrow> exn + Response)
   \<Rightarrow> (string, string list) dict \<Rightarrow> (string \<Rightarrow> exn + Response)
   \<Rightarrow> string \<Rightarrow> Ursula list \<Rightarrow> exn + string" where
  "determine_external_ip_address pick requests_get TEACHER_NODES ping_teacher network nodes =
     (case (if nodes \<noteq> [] then get_external_ip_from_known_nodes pick requests_get nodes 3
            else Inr None) of
        Inl e \<Rightarrow> Inl e
      | Inr primary \<Rightarrow>
          (case (if \<not> host_found primary
                 then get_external_ip_from_default_teacher TEACHER_NODES ping_teacher network
                 else Inr primary) of
             Inl e \<Rightarrow> Inl e
           | Inr fallback1 \<Rightarrow>
               (case (if \<not> host_found fallback1
                      then get_external_ip_from_centralized_source requests_get
                      else Inr fallback1) of
                  Inl e \<Rightarrow> Inl e
                | Inr fallback2 \<Rightarrow>
                    (case fallback2 of
                       Some rest_host \<Rightarrow>
                         if rest_host \<noteq> [] then Inr rest_host
                         else Inl (Exc UnknownIPAddress
                                (Some ''External IP address detection failed''))
                     | None \<Rightarrow>
                         Inl (Exc UnknownIPAddress
                                (Some ''External IP address detection failed''))))))"

section \<open>Sample values\<close>

text \<open>Concrete collaborators, for the instances at which the theorems are exercised.\<close>

definition sample_key :: "string \<Rightarrow> PublicKey" where
  "sample_key name = \<lparr>key_bytes = name, key_str = ''PublicKey:'' @ name\<rparr>"

definition sample_character :: "string \<Rightarrow> Character" where
  "sample_character name =
     \<lparr>stamp = \<lparr>as_umbral_pubkey = sample_key name\<rparr>, known_nodes = []\<rparr>"

definition sample_ursula :: "string \<Rightarrow> Ursula" where
  "sample_ursula address =
     \<lparr>checksum_address = address,
      rest_url = ''https://'' @ address,
      ursula_str = ''(Ursula)'' @ address\<rparr>"

definition sample_response :: "int \<Rightarrow> Response" where
  "sample_response code =
     \<lparr>status_code = code,
      status = Some (str_int code),
      content = ''signature'',
      response_text = ''203.0.113.7'',
      response_str = ''<Response ['' @ str_int code @ '']>''\<rparr>"

definition sample_expiration :: MayaDT where
  "sample_expiration = \<lparr>iso8601 = ''2021-06-01T12:00:00Z'', epoch = 1622548800\<rparr>"

definition sample_kfrag :: VerifiedKeyFrag where
  "sample_kfrag = \<lparr>kfrag_bytes = ''kfrag''\<rparr>"

definition sample_policy :: Policy where
  "sample_policy =
     Policy_init (\<lambda>lbl key. lbl @ key) (\<lambda>(a, b, c). a @ b @ c)
       ((sample_character ''alice'')\<lparr>known_nodes := [(''0xA'', sample_ursula ''0xA'')]\<rparr>)
       ''label'' sample_expiration (sample_character ''bob'')
       [sample_kfrag, sample_kfrag] (sample_key ''policy'') 1"

definition sample_arrangement :: Arrangement where
  "sample_arrangement =
     \<lparr>expiration = sample_expiration, publisher_verifying_key = sample_key ''alice-key''\<rparr>"

definition sample_from_iso8601 :: "string \<Rightarrow> exn + MayaDT" where
  "sample_from_iso8601 s =
     (if s = iso8601 sample_expiration then Inr sample_expiration
      else Inl (Exc ValueError (Some ''not a timestamp'')))"

definition sample_pool :: "(Ursula, Response) WorkerPool" where
  "sample_pool =
     \<lparr>pool_values = [sample_ursula ''0xA''],
      target_successes = 1,
      threadpool_size = 120,
      successes = [],
      failures = []\<rparr>"

section \<open>Evaluating the printed integers\<close>

lemma str_nat_digit: "k < 10 \<Longrightarrow> str_nat k = [digit_char k]"
  by (simp add: str_nat.simps)

lemma str_nat_step: "10 \<le> k \<Longrightarrow> str_nat k = str_nat (k div 10) @ [digit_char (k mod 10)]"
  by (simp add: str_nat.simps)

lemmas str_int_eval = str_int_def str_nat_digit str_nat_step digit_char_def

section \<open>Dictionaries built from items with distinct keys\<close>

lemma update_fresh: "k \<notin> fst ` set d \<Longrightarrow> AList.update k v d = d @ [(k, v)]"
  by (induction d) auto

lemma foldl_update_distinct:
  "distinct (map fst (d @ items)) \<Longrightarrow>
     foldl (\<lambda>d (k, v). AList.update k v d) d items = d @ items"
proof (induction items arbitrary: d)
  case Nil
  then show ?case by simp
next
  case (Cons item items)
  obtain k v where item: "item = (k, v)"
    by (cases item)
  have fresh: "k \<notin> fst ` set d"
    using Cons.prems item by auto
  have "distinct (map fst ((d @ [(k, v)]) @ items))"
    using Cons.prems item by simp
  then have "foldl (\<lambda>d (k, v). AList.update k v d) (d @ [(k, v)]) items = (d @ [(k, v)]) @ items"
    by (rule Cons.IH)
  then show ?case
    using item fresh by (simp add: update_fresh)
qed

lemma dict_of_items_distinct: "distinct (map fst items) \<Longrightarrow> dict_of_items items = items"
  using foldl_update_distinct [of "[]" items] by (simp add: dict_of_items_def)

lemma fst_by_address:
  "fst \<circ> (\<lambda>(ursula, status). (checksum_address ursula, status)) = checksum_address \<circ> fst"
  by (rule ext) (simp add: split_def)

lemma snd_by_address:
  "snd \<circ> (\<lambda>(ursula, status). (checksum_address ursula, status)) = snd"
  by (rule ext) (simp add: split_def)

lemma responses_by_address:
  assumes "distinct (map (checksum_address \<circ> fst) got)"
  shows "dict_of_items (map (\<lambda>(ursula, status). (checksum_address ursula, status)) got)
       = map (\<lambda>(ursula, status). (checksum_address ursula, status)) got"
  using assms by (intro dict_of_items_distinct) (simp add: fst_by_address)

lemma distinct_foldl_update:
  "distinct (map fst d) \<Longrightarrow> distinct (map fst (foldl (\<lambda>d (k, v). AList.update k v d) d items))"
proof (induction items arbitrary: d)
  case Nil
  then show ?case by simp
next
  case (Cons item items)
  obtain k v where item: "item = (k, v)"
    by (cases item)
  have "distinct (map fst (AList.update k v d))"
    using Cons.prems by (rule distinct_update)
  then have "distinct (map fst (foldl (\<lambda>d (k, v). AList.update k v d) (AList.update k v d) items))"
    by (rule Cons.IH)
  then show ?case
    using item by simp
qed

lemma map_of_foldl_update:
  "map_of (foldl (\<lambda>d (k, v). AList.update k v d) d items) = map_of d ++ map_of (rev items)"
proof (induction items arbitrary: d)
  case Nil
  show ?case by simp
next
  case (Cons item items)
  obtain k v where item: "item = (k, v)"
    by (cases item)
  have "map_of (foldl (\<lambda>d (k, v). AList.update k v d) (AList.update k v d) items)
      = map_of (AList.update k v d) ++ map_of (rev items)"
    by (rule Cons.IH)
  also have "map_of (AList.update k v d) = map_of d ++ map_of [(k, v)]"
    by (rule ext) (simp add: update_conv map_add_def)
  also have "(map_of d ++ map_of [(k, v)]) ++ map_of (rev items)
      = map_of d ++ map_of (rev ((k, v) # items))"
    by (simp only: rev.simps map_of_append map_add_assoc)
  finally show ?case
    using item by simp
qed

lemma distinct_dict_of_items: "distinct (map fst (dict_of_items items))"
  using distinct_foldl_update [of "[]" items] by (simp add: dict_of_items_def)

lemma map_of_dict_of_items: "map_of (dict_of_items items) = map_of (rev items)"
  using map_of_foldl_update [of "[]" items] by (simp add: dict_of_items_def)

section \<open>Publication: the outcome at quorum (C1)\<close>

text \<open>
  The method judges the dictionary of responses by checksum address: each address
  once, with the response of the last peer recorded under it.
\<close>

lemma outcome_by_address:
  "distinct (map fst (responses_of got))
   \<and> map_of (responses_of got)
       = map_of (rev (map (\<lambda>(ursula, status). (checksum_address ursula, status)) got))
   \<and> (distinct (map (checksum_address \<circ> fst) got) \<longrightarrow>
         map snd (responses_of got) = map snd got)
   \<and> (list_all (\<lambda>response. status_code response = 201) (map snd (responses_of got)) \<longrightarrow>
         snd (block_until_success_is_reasonably_likely None completed got) = Inr completed)
   \<and> (list_ex (\<lambda>response. status_code response = 402) (map snd (responses_of got)) \<longrightarrow>
         snd (block_until_success_is_reasonably_likely None completed got) = Inl (Exc Unpaid None))
   \<and> (\<not> list_all (\<lambda>response. status_code response = 201) (map snd (responses_of got))
         \<and> \<not> list_ex (\<lambda>response. status_code response = 402) (map snd (responses_of got)) \<longrightarrow>
         snd (block_until_success_is_reasonably_likely None completed got)
           = Inl (Exc EnactmentError (Some (join [CHR 0x0A]
               (map (\<lambda>(address, status). address @ '': '' @ response_str status)
                    (responses_of got))))))"
proof -
  have keyed: "distinct (map fst (responses_of got))"
    by (rule distinct_dict_of_items)
  have latest: "map_of (responses_of got)
       = map_of (rev (map (\<lambda>(ursula, status). (checksum_address ursula, status)) got))"
    by (rule map_of_dict_of_items)
  have all_recorded: "distinct (map (checksum_address \<circ> fst) got) \<longrightarrow>
         map snd (responses_of got) = map snd got"
  proof
    assume "distinct (map (checksum_address \<circ> fst) got)"
    then show "map snd (responses_of got) = map snd got"
      using responses_by_address [of got] by (simp add: snd_by_address)
  qed
  have unpaid_not_accepted: "\<not> list_all (\<lambda>response. status_code response = 201) statuses"
    if "list_ex (\<lambda>response. status_code response = 402) statuses" for statuses
    using that by (force simp: list_all_iff list_ex_iff)
  have accepted: "list_all (\<lambda>response. status_code response = 201) (map snd (responses_of got)) \<longrightarrow>
         snd (block_until_success_is_reasonably_likely None completed got) = Inr completed"
    by (simp add: block_until_success_is_reasonably_likely_def Let_def)
  have unpaid: "list_ex (\<lambda>response. status_code response = 402) (map snd (responses_of got)) \<longrightarrow>
         snd (block_until_success_is_reasonably_likely None completed got) = Inl (Exc Unpaid None)"
    using unpaid_not_accepted [of "map snd (responses_of got)"]
    by (simp add: block_until_success_is_reasonably_likely_def Let_def)
  have rejected: "\<not> list_all (\<lambda>response. status_code response = 201) (map snd (responses_of got))
         \<and> \<not> list_ex (\<lambda>response. status_code response = 402) (map snd (responses_of got)) \<longrightarrow>
         snd (block_until_success_is_reasonably_likely None completed got)
           = Inl (Exc EnactmentError (Some (join [CHR 0x0A]
               (map (\<lambda>(address, status). address @ '': '' @ response_str status)
                    (responses_of got)))))"
    by (simp add: block_until_success_is_reasonably_likely_def Let_def)
  show ?thesis
    using keyed latest all_recorded accepted unpaid rejected by (intro conjI)
qed

text \<open>
  So of two recorded peers with one address the later response replaces the
  earlier: a recorded 402 followed by a 201 under the same address is not seen, and
  the completed set is returned.
\<close>

theorem same_address_masks_402_counterexample:
  "snd (block_until_success_is_reasonably_likely None
          [(sample_ursula ''0xA'', sample_response 402)]
          [(sample_ursula ''0xA'', sample_response 402),
           ((sample_ursula ''0xA'')\<lparr>rest_url := ''https://elsewhere''\<rparr>, sample_response 201)])
   = Inr [(sample_ursula ''0xA'', sample_response 402)]"
  by (simp add: block_until_success_is_reasonably_likely_def Let_def dict_of_items_def
      sample_ursula_def sample_response_def)

text \<open>
  C1, amended. For every publication run in which the recorded peers have distinct
  checksum addresses, once \<open>block_until_target_successes()\<close> has returned,
  \<open>block_until_success_is_reasonably_likely\<close> returns the completed set when every
  recorded success has status 201; raises \<open>Unpaid\<close> when at least one recorded
  success has status 402; and otherwise raises \<open>EnactmentError\<close> with the report
  of one line ``address: response'' per peer. So one peer answering 402 among peers
  answering 201 makes the caller see \<open>Unpaid\<close>.
\<close>

theorem publication_outcome:
  assumes "distinct (map (checksum_address \<circ> fst) got)"
  shows "(list_all (\<lambda>response. status_code response = 201) (map snd got) \<longrightarrow>
            snd (block_until_success_is_reasonably_likely None completed got) = Inr completed)
       \<and> (list_ex (\<lambda>response. status_code response = 402) (map snd got) \<longrightarrow>
            snd (block_until_success_is_reasonably_likely None completed got) = Inl (Exc Unpaid None))
       \<and> (\<not> list_all (\<lambda>response. status_code response = 201) (map snd got)
            \<and> \<not> list_ex (\<lambda>response. status_code response = 402) (map snd got) \<longrightarrow>
            snd (block_until_success_is_reasonably_likely None completed got)
              = Inl (Exc EnactmentError (Some (join [CHR 0x0A]
                  (map (\<lambda>(ursula, status). checksum_address ursula @ '': '' @ response_str status)
                       got)))))"
proof -
  let ?by_address = "\<lambda>(ursula, status). (checksum_address ursula, status)"
  have unpaid_not_accepted:
    "\<not> list_all (\<lambda>response. status_code response = 201) (map snd got)"
    if "list_ex (\<lambda>response. status_code response = 402) (map snd got)"
    using that by (force simp: list_all_iff list_ex_iff)
  have responses: "dict_of_items (map ?by_address got) = map ?by_address got"
    by (rule responses_by_address [OF assms])
  have statuses: "map snd (map ?by_address got) = map snd got"
    by (simp add: snd_by_address)
  have report: "map (\<lambda>(address, status). address @ '': '' @ response_str status)
                    (map ?by_address got)
              = map (\<lambda>(ursula, status). checksum_address ursula @ '': '' @ response_str status) got"
    by (simp add: split_def)
  show ?thesis
    unfolding block_until_success_is_reasonably_likely_def Let_def responses statuses report
    using unpaid_not_accepted by simp
qed

theorem publication_outcome_witness:
  "distinct (map (checksum_address \<circ> fst)
      [(sample_ursula ''0xA'', sample_response 402),
       (sample_ursula ''0xB'', sample_response 201),
       (sample_ursula ''0xC'', sample_response 201)])
   \<and> snd (block_until_success_is_reasonably_likely None
          [(sample_ursula ''0xA'', sample_response 402)]
          [(sample_ursula ''0xA'', sample_response 402),
           (sample_ursula ''0xB'', sample_response 201),
           (sample_ursula ''0xC'', sample_response 201)])
     = Inl (Exc Unpaid None)"
proof -
  have addresses: "distinct (map (checksum_address \<circ> fst)
      [(sample_ursula ''0xA'', sample_response 402),
       (sample_ursula ''0xB'', sample_response 201),
       (sample_ursula ''0xC'', sample_response 201)])"
    by (simp add: sample_ursula_def)
  have unpaid: "list_ex (\<lambda>response. status_code response = 402)
      (map snd [(sample_ursula ''0xA'', sample_response 402),
                (sample_ursula ''0xB'', sample_response 201),
                (sample_ursula ''0xC'', sample_response 201)])"
    by (simp add: sample_response_def)
  show ?thesis
    using addresses unpaid
      publication_outcome [OF addresses, of "[(sample_ursula ''0xA'', sample_response 402)]"]
    by simp
qed

section \<open>Publication: the quorum count (C2)\<close>

lemma bit_length_0: "bit_length 0 = 0"
  by (simp add: bit_length.simps [of 0])

lemma bit_length_1: "bit_length (Suc 0) = Suc 0"
  by (simp add: bit_length.simps [of "Suc 0"] bit_length_0)

lemma bit_length_bounds:
  "0 < k \<Longrightarrow> 2 ^ (bit_length k - 1) \<le> k \<and> k < 2 ^ bit_length k"
proof (induction k rule: bit_length.induct)
  case (1 k)
  show ?case
  proof (cases "k div 2 = 0")
    case True
    with "1.prems" have "k = 1"
      by (simp add: div_eq_0_iff) 
    then show ?thesis
      by (simp add: bit_length_1)
  next
    case False
    then have half: "0 < k div 2"
      by simp
    have step: "bit_length k = Suc (bit_length (k div 2))"
      using "1.prems" by (simp add: bit_length.simps [of k])
    have ih: "2 ^ (bit_length (k div 2) - 1) \<le> k div 2 \<and> k div 2 < 2 ^ bit_length (k div 2)"
      using "1.IH" "1.prems" half by simp
    have pos: "0 < bit_length (k div 2)"
      using half by (simp add: bit_length.simps [of "k div 2"])
    then have unfold: "(2::nat) ^ bit_length (k div 2) = 2 * 2 ^ (bit_length (k div 2) - 1)"
      by (cases "bit_length (k div 2)") simp_all
    have lower: "2 ^ (bit_length k - 1) \<le> k"
      using ih unfold step by simp linarith
    have upper: "k < 2 ^ bit_length k"
      using ih step by simp linarith
    show ?thesis
      using lower upper by simp
  qed
qed

lemma nat_pow_bounds:
  fixes p :: int and lp :: nat
  assumes bp: "2 ^ (lp - 1) \<le> nat p \<and> nat p < 2 ^ lp" and p_pos: "0 < p"
  shows "0 < lp" and "(2::rat) ^ (lp - 1) \<le> of_int p" and "of_int p < (2::rat) ^ lp"
proof -
  show "0 < lp"
  proof (rule ccontr)
    assume "\<not> 0 < lp"
    then have "lp = 0" by simp
    with bp have "nat p < 1" by simp
    with p_pos show False by simp
  qed
  have "int (2 ^ (lp - 1)) \<le> int (nat p)"
    using bp by (simp only: of_nat_le_iff)
  then have "(2::int) ^ (lp - 1) \<le> p"
    using p_pos by simp
  then have "of_int ((2::int) ^ (lp - 1)) \<le> (of_int p :: rat)"
    by (simp only: of_int_le_iff)
  then show "(2::rat) ^ (lp - 1) \<le> of_int p"
    by simp
  have "int (nat p) < int (2 ^ lp)"
    using bp by (simp only: of_nat_less_iff)
  then have "p < (2::int) ^ lp"
    using p_pos by simp
  then have "(of_int p :: rat) < of_int ((2::int) ^ lp)"
    by (simp only: of_int_less_iff)
  then show "of_int p < (2::rat) ^ lp"
    by simp
qed

lemma binary_exponent_bounds:
  assumes "0 < x"
  shows "2 powi (binary_exponent x) \<le> x \<and> x < 2 powi (binary_exponent x + 1)"
proof -
  obtain p q where pq: "quotient_of x = (p, q)"
    by (cases "quotient_of x")
  have q_pos: "0 < q"
    using pq by (rule quotient_of_denom_pos)
  have x_eq: "x = of_int p / of_int q"
    using pq by (rule quotient_of_div)
  have p_pos: "0 < p"
    using assms q_pos x_eq by (simp add: zero_less_divide_iff)
  define lp where "lp = bit_length (nat p)"
  define lq where "lq = bit_length (nat q)"
  define d where "d = int lp - int lq"
  have bp: "2 ^ (lp - 1) \<le> nat p \<and> nat p < 2 ^ lp"
    unfolding lp_def using p_pos by (intro bit_length_bounds) simp
  have bq: "2 ^ (lq - 1) \<le> nat q \<and> nat q < 2 ^ lq"
    unfolding lq_def using q_pos by (intro bit_length_bounds) simp
  have lp_pos: "0 < lp" and p_lo: "(2::rat) ^ (lp - 1) \<le> of_int p"
    and p_hi: "of_int p < (2::rat) ^ lp"
    using nat_pow_bounds [OF bp p_pos] by simp_all
  have lq_pos: "0 < lq" and q_lo: "(2::rat) ^ (lq - 1) \<le> of_int q"
    and q_hi: "of_int q \<le> (2::rat) ^ lq"
    using nat_pow_bounds [OF bq q_pos] by simp_all
  have upper_pow: "(2::rat) powi (d + 1) = 2 ^ lp / 2 ^ (lq - 1)"
  proof -
    have "d + 1 = int lp - int (lq - 1)"
      using lq_pos by (simp add: d_def)
    then have "(2::rat) powi (d + 1) = 2 powi (int lp) / 2 powi (int (lq - 1))"
      by (simp add: power_int_diff)
    then show ?thesis by simp
  qed
  have lower_pow: "(2::rat) powi (d - 1) = 2 ^ (lp - 1) / 2 ^ lq"
  proof -
    have "d - 1 = int (lp - 1) - int lq"
      using lp_pos by (simp add: d_def)
    then have "(2::rat) powi (d - 1) = 2 powi (int (lp - 1)) / 2 powi (int lq)"
      by (simp add: power_int_diff)
    then show ?thesis by simp
  qed
  have upper: "x < 2 powi (d + 1)"
    unfolding upper_pow x_eq
    using p_pos p_hi q_lo by (intro frac_less) simp_all
  have lower: "2 powi (d - 1) \<le> x"
    unfolding lower_pow x_eq
    using p_pos p_lo q_hi q_pos by (intro frac_le) simp_all
  have be: "binary_exponent x = (if 2 powi d \<le> x then d else d - 1)"
    by (simp add: binary_exponent_def pq d_def lp_def lq_def Let_def)
  show ?thesis
  proof (cases "2 powi d \<le> x")
    case True
    then show ?thesis using be upper by simp
  next
    case False
    then show ?thesis using be lower by simp
  qed
qed

lemma binary_exponent_unique:
  assumes "0 < x" and "2 powi e \<le> x" and "x < 2 powi (e + 1)"
  shows "binary_exponent x = e"
proof -
  let ?b = "binary_exponent x"
  have bounds: "2 powi ?b \<le> x" "x < 2 powi (?b + 1)"
    using binary_exponent_bounds [OF assms(1)] by simp_all
  have "?b < e + 1"
  proof (rule ccontr)
    assume "\<not> ?b < e + 1"
    then have "(2::rat) powi (e + 1) \<le> 2 powi ?b"
      by (intro power_int_increasing) simp_all
    with bounds(1) assms(3) show False by simp
  qed
  moreover have "e < ?b + 1"
  proof (rule ccontr)
    assume "\<not> e < ?b + 1"
    then have "(2::rat) powi (?b + 1) \<le> 2 powi e"
      by (intro power_int_increasing) simp_all
    with bounds(2) assms(2) show False by simp
  qed
  ultimately show ?thesis by simp
qed

lemma round_half_even_error: "\<bar>of_int (round_half_even q) - q\<bar> \<le> 1 / 2"
proof -
  have "of_int \<lfloor>q\<rfloor> \<le> q" and "q < of_int \<lfloor>q\<rfloor> + 1"
    by linarith+
  then show ?thesis
    by (auto simp: round_half_even_def Let_def)
qed

lemma round_half_even_of_int: "round_half_even (of_int k) = k"
  by (simp add: round_half_even_def)

lemma round_half_even_below_half:
  assumes "of_int f \<le> q" and "q < of_int f + 1 / 2"
  shows "round_half_even q = f"
proof -
  have "\<lfloor>q\<rfloor> = f"
    using assms by (intro floor_unique) simp_all
  then show ?thesis
    using assms(2) by (simp add: round_half_even_def Let_def)
qed

lemma float_round_error:
  assumes "x \<noteq> 0"
  shows "\<bar>float_round x - x\<bar> \<le> 2 powi (max (binary_exponent \<bar>x\<bar>) (- 1022) - 53)"
proof -
  define e where "e = max (binary_exponent \<bar>x\<bar>) (- 1022)"
  define ulp :: rat where "ulp = 2 powi (e - 52)"
  define m where "m = round_half_even (\<bar>x\<bar> / ulp)"
  have ulp_pos: "0 < ulp"
    by (simp add: ulp_def)
  have fr: "float_round x = sgn x * of_int m * ulp"
    using assms by (simp add: float_round_def Let_def e_def ulp_def m_def)
  have "\<bar>of_int m - \<bar>x\<bar> / ulp\<bar> \<le> 1 / 2"
    unfolding m_def by (rule round_half_even_error)
  then have "\<bar>of_int m - \<bar>x\<bar> / ulp\<bar> * ulp \<le> 1 / 2 * ulp"
    using ulp_pos by (intro mult_right_mono) simp_all
  moreover have "\<bar>of_int m - \<bar>x\<bar> / ulp\<bar> * ulp = \<bar>of_int m * ulp - \<bar>x\<bar>\<bar>"
  proof -
    have "\<bar>of_int m - \<bar>x\<bar> / ulp\<bar> * ulp = \<bar>(of_int m - \<bar>x\<bar> / ulp) * ulp\<bar>"
      using ulp_pos by (simp add: abs_mult)
    also have "(of_int m - \<bar>x\<bar> / ulp) * ulp = of_int m * ulp - \<bar>x\<bar>"
      using ulp_pos by (simp add: field_simps)
    finally show ?thesis .
  qed
  ultimately have scaled: "\<bar>of_int m * ulp - \<bar>x\<bar>\<bar> \<le> ulp / 2"
    by simp
  have "float_round x - x = sgn x * (of_int m * ulp) - sgn x * \<bar>x\<bar>"
    by (simp add: fr mult_sgn_abs mult.assoc)
  then have "float_round x - x = sgn x * (of_int m * ulp - \<bar>x\<bar>)"
    by (simp only: right_diff_distrib)
  then have "\<bar>float_round x - x\<bar> = \<bar>sgn x\<bar> * \<bar>of_int m * ulp - \<bar>x\<bar>\<bar>"
    by (simp only: abs_mult)
  then have "\<bar>float_round x - x\<bar> = \<bar>of_int m * ulp - \<bar>x\<bar>\<bar>"
    using assms by (simp add: abs_sgn_eq)
  moreover have "ulp / 2 = 2 powi (e - 53)"
  proof -
    have "(2::rat) powi (e - 53 + 1) = 2 powi (e - 53) * 2"
      by (rule power_int_add_1) simp
    moreover have "e - 53 + 1 = e - 52"
      by simp
    ultimately have "(2::rat) powi (e - 52) = 2 powi (e - 53) * 2"
      by simp
    then show ?thesis
      by (simp add: ulp_def)
  qed
  ultimately show ?thesis
    using scaled by (simp add: e_def)
qed

lemma float_round_of_int:
  assumes "k \<noteq> 0" and "\<bar>k\<bar> < 2 ^ 53"
  shows "float_round (of_int k) = of_int k"
proof -
  define ax :: rat where "ax = \<bar>of_int k\<bar>"
  define e where "e = binary_exponent ax"
  have ax_int: "ax = of_int \<bar>k\<bar>"
    by (simp add: ax_def)
  have ax_ge: "1 \<le> ax"
    using assms(1) by (simp add: ax_def)
  have ax_lt: "ax < 2 ^ 53"
  proof -
    have "(of_int \<bar>k\<bar> :: rat) < of_int (2 ^ 53)"
      using assms(2) by (simp only: of_int_less_iff)
    then show ?thesis by (simp add: ax_int)
  qed
  have bounds: "2 powi e \<le> ax" "ax < 2 powi (e + 1)"
    using binary_exponent_bounds [of ax] ax_ge by (simp_all add: e_def)
  have e_ge: "0 \<le> e"
  proof (rule ccontr)
    assume "\<not> 0 \<le> e"
    then have "(2::rat) powi (e + 1) \<le> 2 powi 0"
      by (intro power_int_increasing) simp_all
    with bounds(2) ax_ge show False by simp
  qed
  have e_le: "e \<le> 52"
  proof (rule ccontr)
    assume "\<not> e \<le> 52"
    then have "(2::rat) powi 53 \<le> 2 powi e"
      by (intro power_int_increasing) simp_all
    with bounds(1) ax_lt show False by simp
  qed
  define j where "j = nat (52 - e)"
  have ulp: "(2::rat) powi (e - 52) = 1 / 2 ^ j"
  proof -
    have "e - 52 = - int j"
      using e_le by (simp add: j_def)
    then have "(2::rat) powi (e - 52) = 2 powi (- int j)"
      by simp
    also have "\<dots> = 1 / 2 powi (int j)"
      by (rule power_int_minus_divide)
    finally show ?thesis by simp
  qed
  have scaled: "ax / (1 / 2 ^ j) = of_int (\<bar>k\<bar> * 2 ^ j)"
    by (simp add: ax_int)
  have rounded: "round_half_even (ax / (1 / 2 ^ j)) = \<bar>k\<bar> * 2 ^ j"
    unfolding scaled by (rule round_half_even_of_int)
  have "float_round (of_int k) = sgn (of_int k) * of_int (\<bar>k\<bar> * 2 ^ j) * (1 / 2 ^ j)"
    using assms(1) e_ge rounded
    by (simp add: float_round_def Let_def ax_def [symmetric] e_def [symmetric] ulp max_def)
  also have "\<dots> = sgn (of_int k) * of_int \<bar>k\<bar>"
    by simp
  also have "\<dots> = (of_int k :: rat)"
    by (simp only: of_int_abs mult_sgn_abs)
  finally show ?thesis .
qed

lemma ceiling_float_round_hundredth:
  assumes "\<bar>a\<bar> \<le> 100 * 2 ^ 47"
  shows "\<lceil>float_round (of_int a / 100)\<rceil> = \<lceil>of_int a / (100::rat)\<rceil>
       \<and> \<bar>float_round (of_int a / 100)\<bar> < 2 ^ 1024"
proof (cases "100 dvd a")
  case True
  then obtain k where k: "a = 100 * k"
    by (elim dvdE)
  have x: "of_int a / (100::rat) = of_int k"
    by (simp add: k)
  have k_small: "\<bar>k\<bar> \<le> 2 ^ 47"
    using assms by (simp add: k abs_mult)
  show ?thesis
  proof (cases "k = 0")
    case True
    then show ?thesis by (simp add: x float_round_def)
  next
    case False
    have "\<bar>k\<bar> < 2 ^ 53"
      using k_small by simp
    then have exact: "float_round (of_int k) = of_int k"
      using False by (intro float_round_of_int)
    have "\<bar>of_int k :: rat\<bar> = of_int \<bar>k\<bar>"
      by simp
    also have "\<dots> \<le> of_int (2 ^ 47)"
      using k_small by (simp only: of_int_le_iff)
    finally have "\<bar>of_int k :: rat\<bar> < 2 ^ 1024"
      by simp
    then show ?thesis
      by (simp add: x exact)
  qed
next
  case False
  define x :: rat where "x = of_int a / 100"
  define k where "k = a div 100"
  define r where "r = a mod 100"
  have r_range: "1 \<le> r" "r \<le> 99"
    using False by (simp_all add: r_def mod_eq_0_iff_dvd) presburger+
  have a_eq: "a = 100 * k + r"
    by (simp add: k_def r_def)
  have x_eq: "x = of_int k + of_int r / 100"
    by (simp add: x_def a_eq add_divide_distrib)
  have x_lo: "of_int k + 1 / 100 \<le> x"
  proof -
    have "(1::rat) \<le> of_int r"
      using r_range(1) by simp
    then show ?thesis by (simp add: x_eq)
  qed
  have x_hi: "x \<le> of_int k + 99 / 100"
  proof -
    have "(of_int r :: rat) \<le> of_int 99"
      using r_range(2) by (simp only: of_int_le_iff)
    then show ?thesis by (simp add: x_eq)
  qed
  have a_bounds: "1 \<le> \<bar>a\<bar>" "\<bar>a\<bar> < 100 * 2 ^ 47"
    using False assms by (simp_all) presburger+
  have abs_x: "\<bar>x\<bar> = of_int \<bar>a\<bar> / 100"
    by (simp add: x_def)
  have ax_lo: "1 / 100 \<le> \<bar>x\<bar>"
  proof -
    have "(of_int 1 :: rat) \<le> of_int \<bar>a\<bar>"
      using a_bounds(1) by (simp only: of_int_le_iff)
    then show ?thesis by (simp add: abs_x)
  qed
  have ax_hi: "\<bar>x\<bar> < 2 ^ 47"
  proof -
    have "(of_int \<bar>a\<bar> :: rat) < of_int (100 * 2 ^ 47)"
      using a_bounds(2) by (simp only: of_int_less_iff)
    then show ?thesis by (simp add: abs_x)
  qed
  have x_nz: "x \<noteq> 0"
    using ax_lo by auto
  define e where "e = binary_exponent \<bar>x\<bar>"
  have bounds: "2 powi e \<le> \<bar>x\<bar>" "\<bar>x\<bar> < 2 powi (e + 1)"
    using binary_exponent_bounds [of "\<bar>x\<bar>"] x_nz by (simp_all add: e_def)
  have e_le: "e \<le> 46"
  proof (rule ccontr)
    assume "\<not> e \<le> 46"
    then have "(2::rat) powi 47 \<le> 2 powi e"
      by (intro power_int_increasing) simp_all
    with bounds(1) ax_hi show False by simp
  qed
  have e_ge: "- 1022 \<le> e"
  proof (rule ccontr)
    assume "\<not> - 1022 \<le> e"
    then have "(2::rat) powi (e + 1) \<le> 2 powi (- 7)"
      by (intro power_int_increasing) simp_all
    with bounds(2) ax_lo show False by simp
  qed
  have "\<bar>float_round x - x\<bar> \<le> 2 powi (max e (- 1022) - 53)"
    unfolding e_def by (rule float_round_error [OF x_nz])
  also have "max e (- 1022) = e"
    using e_ge by simp
  also have "(2::rat) powi (e - 53) \<le> 2 powi (- 7)"
    using e_le by (intro power_int_increasing) simp_all
  finally have close: "\<bar>float_round x - x\<bar> \<le> 1 / 128"
    by simp
  have near: "x - 1 / 128 \<le> float_round x" "float_round x \<le> x + 1 / 128"
    using close by linarith+
  have above: "of_int (k + 1) - 1 < float_round x"
    using near(1) x_lo by simp
  have below: "float_round x \<le> of_int (k + 1)"
    using near(2) x_hi by simp
  have ceil_rounded: "\<lceil>float_round x\<rceil> = k + 1"
    using above below by (rule ceiling_unique)
  have "of_int (k + 1) - 1 < x" and "x \<le> of_int (k + 1)"
    using x_lo x_hi by simp_all
  then have ceil_exact: "\<lceil>x\<rceil> = k + 1"
    by (rule ceiling_unique)
  have "\<bar>float_round x\<bar> \<le> \<bar>float_round x - x\<bar> + \<bar>x\<bar>"
    by simp
  also have "\<dots> < 1 / 128 + 2 ^ 47"
    using close ax_hi by simp
  finally have "\<bar>float_round x\<bar> < 2 ^ 1024"
    by simp
  then show ?thesis
    using ceil_rounded ceil_exact by (simp add: x_def)
qed

lemma float_round_beyond_precision:
  "float_round (14073748835532801 / 100) = 140737488355328"
proof -
  have e: "binary_exponent (14073748835532801 / 100) = 47"
    by (rule binary_exponent_unique) simp_all
  have r: "round_half_even (14073748835532801 / 100 / (1 / 32)) = 4503599627370496"
    by (rule round_half_even_below_half) simp_all
  show ?thesis
    using r by (simp add: float_round_def Let_def e)
qed

text \<open>
  The quorum is a float rounded up. It is the ceiling of the exact quotient while
  the quotient is in the range where binary64 still separates hundredths, that is
  for \<open>|total * p| \<le> 100 * 2 ^ 47\<close>.
\<close>

lemma quorum_within_precision:
  assumes "\<bar>int (length nodes) * p\<bar> \<le> 100 * 2 ^ 47"
  shows "\<exists>pub. TreasureMapPublisher_init nodes p pool_size = Inr pub
           \<and> target_successes (worker_pool pub) = \<lceil>of_int (int (length nodes) * p) / (100::rat)\<rceil>
           \<and> block_until_this_many_are_complete pub = target_successes (worker_pool pub)
           \<and> total pub = length nodes"
proof -
  let ?a = "int (length nodes) * p"
  have rounded: "\<lceil>float_round (of_int ?a / 100)\<rceil> = \<lceil>of_int ?a / (100::rat)\<rceil>"
    and finite: "\<bar>float_round (of_int ?a / 100)\<bar> < 2 ^ 1024"
    using ceiling_float_round_hundredth [OF assms] by simp_all
  have "truediv ?a 100 = Inr (float_round (of_int ?a / 100))"
    using finite by (simp add: truediv_def Let_def)
  then show ?thesis
    using rounded by (simp add: TreasureMapPublisher_init_def math_ceil_def)
qed

text \<open>
  Beyond that range the float can fall on the integer below: a multiplier of
  14073748835532801, which no percentage is, over one node gives the quotient
  140737488355328.01, which rounds to 140737488355328.0.
\<close>

lemma quorum_beyond_precision:
  "TreasureMapPublisher_init [sample_ursula ''0xA''] 14073748835532801 120
     = Inr \<lparr>total = 1,
            block_until_this_many_are_complete = 140737488355328,
            worker_pool = \<lparr>pool_values = [sample_ursula ''0xA''],
                           target_successes = 140737488355328,
                           threadpool_size = 120,
                           successes = [],
                           failures = []\<rparr>\<rparr>
   \<and> \<lceil>14073748835532801 / (100::rat)\<rceil> = 140737488355329"
proof -
  have "truediv 14073748835532801 100 = Inr 140737488355328"
    by (simp add: truediv_def Let_def float_round_beyond_precision)
  moreover have "\<lceil>14073748835532801 / (100::rat)\<rceil> = 140737488355329"
    by (rule ceiling_unique) simp_all
  ultimately show ?thesis
    by (simp add: TreasureMapPublisher_init_def math_ceil_def)
qed

text \<open>
  C2. For every \<open>TreasureMapPublisher\<close> constructed over a node list of length
  \<open>total\<close> (a list in memory: at most \<open>2 ^ 47\<close> nodes) and a percentage \<open>p\<close> (from 0
  to 100), the construction succeeds and the minimum-quorum count (the pool's
  \<open>target_successes\<close>, also kept as \<open>_block_until_this_many_are_complete\<close>) equals
  the ceiling of \<open>total * p / 100\<close>; for \<open>total = 20\<close> and \<open>p = 5\<close> the quorum is 1.
\<close>

theorem quorum_is_ceiling:
  assumes "0 \<le> p" and "p \<le> 100" and "length nodes \<le> 2 ^ 47"
  shows "\<exists>pub. TreasureMapPublisher_init nodes p pool_size = Inr pub
           \<and> target_successes (worker_pool pub) = \<lceil>of_int (int (length nodes) * p) / (100::rat)\<rceil>
           \<and> block_until_this_many_are_complete pub = target_successes (worker_pool pub)
           \<and> total pub = length nodes"
proof -
  have "int (length nodes) \<le> int (2 ^ 47)"
    using assms(3) by (simp only: of_nat_le_iff)
  then have size: "int (length nodes) \<le> 2 ^ 47"
    by simp
  have "int (length nodes) * p \<le> 2 ^ 47 * 100"
    using size assms(1,2) by (intro mult_mono) simp_all
  moreover have "0 \<le> int (length nodes) * p"
    using assms(1) by simp
  ultimately have "\<bar>int (length nodes) * p\<bar> \<le> 100 * 2 ^ 47"
    by simp
  then show ?thesis
    by (rule quorum_within_precision)
qed

theorem quorum_is_ceiling_witness:
  "\<exists>pub. TreasureMapPublisher_init (replicate 20 (sample_ursula ''0xA'')) 5 120 = Inr pub
         \<and> target_successes (worker_pool pub) = 1
         \<and> block_until_this_many_are_complete pub = target_successes (worker_pool pub)
         \<and> total pub = 20"
  using quorum_is_ceiling [of 5 "replicate 20 (sample_ursula ''0xA'')" 120] by simp

section \<open>Proposals: too few acceptances (C3)\<close>

text \<open>
  The error raised for too few acceptances is the class returned by
  \<open>_not_enough_ursulas_exception()\<close>, instantiated without arguments: with one
  acceptance, one rejection and two shares wanted, the exception carries no message,
  and the two address lists are in the debug log only.
\<close>

theorem not_enough_acceptances_counterexample:
  "make_arrangements BlockchainPolicy 2 (Inl (Exc OutOfValues None))
     [(''0xA'', (sample_ursula ''0xA'', from_publisher (sample_character ''alice'') sample_expiration))]
     [(''0xB'', Exc RuntimeError (Some ''Proposing arrangement to (Ursula)0xB failed with 402''))]
   = ([Debug (''Could not find enough Ursulas to accept proposals.'' @ [CHR 0x0A]
              @ ''Accepted: 0xA'' @ [CHR 0x0A] @ ''Rejected:'' @ [CHR 0x0A]
              @ ''0xB: Proposing arrangement to (Ursula)0xB failed with 402'')],
      Inl (Exc NotEnoughBlockchainUrsulas None))"
  by (simp add: make_arrangements_def dict_of_items_def sample_ursula_def Let_def)

text \<open>
  C3, amended. For every arrangement-proposal run whose wait for the pool returned, or
  ended in \<open>OutOfValues\<close> or \<open>TimedOut\<close>, with fewer than \<open>n\<close> acceptances,
  \<open>_make_arrangements\<close> fails with the error of the policy variant
  (\<open>Policy.NotEnoughUrsulas\<close> for the open variant,
  \<open>BlockchainPolicy.NotEnoughBlockchainUrsulas\<close> for the paid one), raised without
  arguments; the accepted and the rejected address lists are written to the debug
  log, in one entry, before the error is raised.
\<close>

theorem not_enough_acceptances:
  assumes "\<forall>e. waited = Inl e \<longrightarrow> exc_class_of e = OutOfValues \<or> exc_class_of e = TimedOut"
    and "length (dict_of_items (map snd (case waited of Inr s \<Rightarrow> s | Inl e \<Rightarrow> got_successes)))
         < shares"
  shows "make_arrangements kind shares waited got_successes got_failures
       = ([Debug (''Could not find enough Ursulas to accept proposals.'' @ [CHR 0x0A]
                  @ ''Accepted: ''
                  @ join '', '' (map (\<lambda>(ursula, a). checksum_address ursula)
                       (dict_of_items
                          (map snd (case waited of Inr s \<Rightarrow> s | Inl e \<Rightarrow> got_successes))))
                  @ [CHR 0x0A] @ ''Rejected:'' @ [CHR 0x0A]
                  @ join [CHR 0x0A] (map (\<lambda>(address, v). address @ '': '' @ str_exn v) got_failures))],
          Inl (Exc (not_enough_ursulas_exception kind) None))
       \<and> not_enough_ursulas_exception FederatedPolicy = NotEnoughUrsulas
       \<and> not_enough_ursulas_exception BlockchainPolicy = NotEnoughBlockchainUrsulas"
  using assms by (cases waited) (simp_all add: make_arrangements_def Let_def)

theorem not_enough_acceptances_witness:
  "make_arrangements FederatedPolicy 3 (Inl (Exc TimedOut None))
     [(''0xA'', (sample_ursula ''0xA'', from_publisher (sample_character ''alice'') sample_expiration)),
      (''0xC'', (sample_ursula ''0xC'', from_publisher (sample_character ''alice'') sample_expiration))]
     [(''0xB'', Exc RuntimeError (Some ''0xB is not known''))]
   = ([Debug (''Could not find enough Ursulas to accept proposals.'' @ [CHR 0x0A]
              @ ''Accepted: 0xA, 0xC'' @ [CHR 0x0A] @ ''Rejected:'' @ [CHR 0x0A]
              @ ''0xB: 0xB is not known'')],
      Inl (Exc NotEnoughUrsulas None))"
  using not_enough_acceptances [of "Inl (Exc TimedOut None)"
      "[(''0xA'', (sample_ursula ''0xA'', from_publisher (sample_character ''alice'') sample_expiration)),
        (''0xC'', (sample_ursula ''0xC'', from_publisher (sample_character ''alice'') sample_expiration))]"
      3 FederatedPolicy "[(''0xB'', Exc RuntimeError (Some ''0xB is not known''))]"]
  by (simp add: dict_of_items_def sample_ursula_def)

section \<open>Status codes of proposals and publications (C4)\<close>

text \<open>
  A proposal answered with status 201 is not an acceptance: \<open>_propose_arrangement\<close>
  accepts status 200 alone and raises \<open>RuntimeError\<close> for 201.
\<close>

theorem proposal_status_201_counterexample:
  "snd (propose_arrangement sample_policy (\<lambda>ursula arrangement. Inr (sample_response 201))
          (\<lambda>ursula message signature. None) ''0xA'')
   = Inl (Exc RuntimeError (Some ''Proposing arrangement to (Ursula)0xA failed with 201''))"
  by (simp add: propose_arrangement_def sample_policy_def Policy_init_def sample_character_def
      sample_ursula_def sample_response_def Let_def str_int_eval)

text \<open>
  C4, amended. For a proposal to a known peer that the transport answers,
  \<open>_propose_arrangement\<close> treats status 200, and no other, as an acceptance: it then
  verifies the peer's signature over the arrangement's bytes and returns the peer
  with the arrangement unless the verification raises; any other status, 201
  included, is a failed proposal (\<open>RuntimeError\<close>) for that candidate. For a map
  publication, status 201, and no other, counts as accepted, 402 as payment required
  (\<open>Unpaid\<close>), and anything else, 200 included, as a generic rejection
  (\<open>EnactmentError\<close>).
\<close>

theorem status_classification:
  assumes known: "map_of (known_nodes (publisher self)) address = Some ursula"
    and answered: "network_middleware ursula
                     (from_publisher (publisher self) (policy_expiration self)) = Inr response"
  shows "(status_code response = 200 \<longrightarrow>
            snd (propose_arrangement self network_middleware verify_from address)
              = (case Arrangement_bytes (from_publisher (publisher self) (policy_expiration self)) of
                   Inl e \<Rightarrow> Inl e
                 | Inr arrangement_bytes \<Rightarrow>
                     (case verify_from ursula arrangement_bytes (content response) of
                        Some e \<Rightarrow> Inl e
                      | None \<Rightarrow>
                          Inr (ursula, from_publisher (publisher self) (policy_expiration self)))))
       \<and> (status_code response \<noteq> 200 \<longrightarrow>
            snd (propose_arrangement self network_middleware verify_from address)
              = Inl (Exc RuntimeError (Some (''Proposing arrangement to '' @ ursula_str ursula
                       @ '' failed with '' @ str_int (status_code response)))))
       \<and> snd (block_until_success_is_reasonably_likely None completed [(node, published)])
           = (if status_code published = 201 then Inr completed
              else if status_code published = 402 then Inl (Exc Unpaid None)
              else Inl (Exc EnactmentError
                     (Some (checksum_address node @ '': '' @ response_str published))))"
proof -
  have proposal: "status_code response = 200 \<longrightarrow>
            snd (propose_arrangement self network_middleware verify_from address)
              = (case Arrangement_bytes (from_publisher (publisher self) (policy_expiration self)) of
                   Inl e \<Rightarrow> Inl e
                 | Inr arrangement_bytes \<Rightarrow>
                     (case verify_from ursula arrangement_bytes (content response) of
                        Some e \<Rightarrow> Inl e
                      | None \<Rightarrow>
                          Inr (ursula, from_publisher (publisher self) (policy_expiration self))))"
    using known answered
    by (simp add: propose_arrangement_def Let_def split: sum.splits option.splits)
  have refusal: "status_code response \<noteq> 200 \<longrightarrow>
            snd (propose_arrangement self network_middleware verify_from address)
              = Inl (Exc RuntimeError (Some (''Proposing arrangement to '' @ ursula_str ursula
                       @ '' failed with '' @ str_int (status_code response))))"
    using known answered by (simp add: propose_arrangement_def Let_def)
  have publication: "snd (block_until_success_is_reasonably_likely None completed [(node, published)])
           = (if status_code published = 201 then Inr completed
              else if status_code published = 402 then Inl (Exc Unpaid None)
              else Inl (Exc EnactmentError
                     (Some (checksum_address node @ '': '' @ response_str published))))"
    by (simp add: block_until_success_is_reasonably_likely_def Let_def dict_of_items_def)
  show ?thesis
    using proposal refusal publication by (intro conjI)
qed

theorem status_classification_witness:
  "snd (propose_arrangement sample_policy (\<lambda>ursula arrangement. Inr (sample_response 200))
          (\<lambda>ursula message signature. None) ''0xA'')
     = Inr (sample_ursula ''0xA'',
            from_publisher (publisher sample_policy) (policy_expiration sample_policy))
   \<and> snd (block_until_success_is_reasonably_likely None [] [(sample_ursula ''0xA'', sample_response 200)])
     = Inl (Exc EnactmentError (Some ''0xA: <Response [200]>''))"
proof -
  have known: "map_of (known_nodes (publisher sample_policy)) ''0xA'' = Some (sample_ursula ''0xA'')"
    by (simp add: sample_policy_def Policy_init_def sample_character_def)
  have answered: "(\<lambda>ursula arrangement. Inr (sample_response 200)) (sample_ursula ''0xA'')
        (from_publisher (publisher sample_policy) (policy_expiration sample_policy))
      = Inr (sample_response 200)"
    by simp
  have "\<exists>b. Arrangement_bytes
          (from_publisher (publisher sample_policy) (policy_expiration sample_policy)) = Inr b"
    by (simp add: Arrangement_bytes_def VariableLengthBytestring_def from_publisher_def
        sample_policy_def Policy_init_def sample_expiration_def)
  then obtain b where framed: "Arrangement_bytes
          (from_publisher (publisher sample_policy) (policy_expiration sample_policy)) = Inr b"
    by (elim exE)
  note classified = status_classification
      [of sample_policy "''0xA''" "sample_ursula ''0xA''"
          "\<lambda>ursula arrangement. Inr (sample_response 200)" "sample_response 200"
          "\<lambda>ursula message signature. None" "[]" "sample_ursula ''0xA''" "sample_response 200",
       OF known answered]
  show ?thesis
    using classified framed by (simp add: sample_response_def sample_ursula_def str_int_eval)
qed

section \<open>Fee arithmetic: the round trip and the refusal of remainders\<close>

lemma floordiv_ok: "b \<noteq> 0 \<Longrightarrow> floordiv a b = Inr (a div b)"
  by (simp add: floordiv_def)

text \<open>
  C5. For \<open>n > 0\<close>, \<open>payment_periods > 0\<close> and a rate that is not negative,
  \<open>generate_policy_parameters\<close> called with the rate returns the value
  \<open>rate * payment_periods * n\<close>, and called again with only that value it returns
  the original rate: \<open>((rate * payment_periods * n) // n) // payment_periods = rate\<close>.
\<close>

theorem fee_round_trip:
  assumes "0 < n" and "0 < pp" and "0 \<le> r"
  shows "generate_policy_parameters n pp None (Some r) = Inr [(''rate'', r), (''value'', r * pp * n)]
       \<and> generate_policy_parameters n pp (Some (r * pp * n)) None
           = Inr [(''rate'', r), (''value'', r * pp * n)]
       \<and> ((r * pp * n) div n) div pp = r"
proof -
  have nonneg: "0 \<le> r * pp * n"
    using assms by simp
  have not_neg: "\<not> r * pp * n < 0" "\<not> n < 0" "\<not> pp < 0" "\<not> r < 0"
    using nonneg assms by linarith+
  have no_negative: "filter is_negative [Some n, Some pp, None, Some r] = []"
      "filter is_negative [Some n, Some pp, Some (r * pp * n), None] = []"
    unfolding is_negative_def using not_neg by force+
  have first: "generate_policy_parameters n pp None (Some r)
      = Inr [(''rate'', r), (''value'', r * pp * n)]"
    using no_negative(1) by (simp add: generate_policy_parameters_def truthy_def)
  have per_node: "(r * pp * n) div n = r * pp"
    using assms by simp
  have per_period: "(r * pp) div pp = r"
    using assms by simp
  have second: "generate_policy_parameters n pp (Some (r * pp * n)) None
      = Inr [(''rate'', r), (''value'', r * pp * n)]"
    using no_negative(2) assms per_node per_period
    by (simp add: generate_policy_parameters_def truthy_def floordiv_ok)
  show ?thesis
    using first second per_node per_period by simp
qed

theorem fee_round_trip_witness:
  "generate_policy_parameters 3 4 None (Some 5) = Inr [(''rate'', 5), (''value'', 60)]
   \<and> generate_policy_parameters 3 4 (Some 60) None = Inr [(''rate'', 5), (''value'', 60)]"
  using fee_round_trip [of 3 4 5] by simp

text \<open>
  The constructor does not raise \<open>InvalidPolicyValue\<close>: \<open>_validate_fee_value\<close> raises
  its base class \<open>ValueError\<close>. The value 61 over three key fragments and four
  periods leaves a remainder, and the construction fails with a \<open>ValueError\<close>.
\<close>

theorem constructor_raises_ValueError_counterexample:
  "BlockchainPolicy_init (\<lambda>lbl key. lbl @ key) (\<lambda>(a, b, c). a @ b @ c) 61 5 4
      (sample_character ''alice'') ''label'' sample_expiration (sample_character ''bob'')
      [sample_kfrag, sample_kfrag, sample_kfrag] (sample_key ''policy'') 2
   = Inl (Exc ValueError
       (Some (''Invalid policy value calculation - 61 can't be divided into 3 ''
              @ ''staker payments per period for 4 periods without a remainder'')))"
  by (simp add: BlockchainPolicy_init_def validate_fee_value_def Policy_init_def floordiv_def
      Policy.extend_def BlockchainPolicy.fields_def Let_def str_int_eval)

text \<open>
  C6, amended. With \<open>n\<close> and \<open>payment_periods\<close> not zero (so that \<open>//\<close> is defined),
  \<open>generate_policy_parameters\<close> raises \<open>InvalidPolicyValue\<close> whenever
  \<open>value // n * n \<noteq> value\<close> or
  \<open>(value // n) // payment_periods * payment_periods \<noteq> value // n\<close>, whatever rate
  is passed along; and the construction of a \<open>BlockchainPolicy\<close> over \<open>n = len(kfrags)\<close>
  key fragments fails whenever
  \<open>payment_periods * (value // n // payment_periods) * n \<noteq> value\<close>, with the
  \<open>ValueError\<close> of \<open>_validate_fee_value\<close> and not with \<open>InvalidPolicyValue\<close>. No
  remainder is rounded away.
\<close>

theorem indivisible_value_rejected:
  assumes "n \<noteq> 0" and "pp \<noteq> 0" and "frags \<noteq> []"
  shows "(v div n * n \<noteq> v \<or> (v div n) div pp * pp \<noteq> v div n \<longrightarrow>
            (\<exists>msg. generate_policy_parameters n pp (Some v) r = Inl (Exc InvalidPolicyValue msg)))
       \<and> (pp * (v div int (length frags) div pp) * int (length frags) \<noteq> v \<longrightarrow>
            (\<exists>msg. BlockchainPolicy_init cpi h v rate_arg pp alice lbl expires recipient frags pk threshold
                     = Inl (Exc ValueError msg)))"
proof -
  have gen: "\<exists>msg. generate_policy_parameters n pp (Some v) r = Inl (Exc InvalidPolicyValue msg)"
    if "v div n * n \<noteq> v \<or> (v div n) div pp * pp \<noteq> v div n"
    using that assms(1,2) by (auto simp: generate_policy_parameters_def floordiv_ok)
  have len: "int (length frags) \<noteq> 0"
    using assms(3) by simp
  have init: "\<exists>msg. BlockchainPolicy_init cpi h v rate_arg pp alice lbl expires recipient frags pk threshold
                     = Inl (Exc ValueError msg)"
    if "pp * (v div int (length frags) div pp) * int (length frags) \<noteq> v"
    using that assms(2) len
    by (simp add: BlockchainPolicy_init_def validate_fee_value_def Policy_init_def floordiv_ok
        Policy.extend_def BlockchainPolicy.fields_def Let_def)
  show ?thesis
    using gen init by blast
qed

theorem indivisible_value_rejected_witness:
  "(\<exists>msg. generate_policy_parameters 3 4 (Some 61) None = Inl (Exc InvalidPolicyValue msg))
   \<and> (\<exists>msg. BlockchainPolicy_init (\<lambda>lbl key. lbl @ key) (\<lambda>(a, b, c). a @ b @ c) 61 5 4
               (sample_character ''alice'') ''label'' sample_expiration (sample_character ''bob'')
               [sample_kfrag, sample_kfrag, sample_kfrag] (sample_key ''policy'') 2
             = Inl (Exc ValueError msg))"
  using indivisible_value_rejected [of 3 4 "[sample_kfrag, sample_kfrag, sample_kfrag]" 61 None
      "\<lambda>lbl key. lbl @ key" "\<lambda>(a, b, c). a @ b @ c" 5
      "sample_character ''alice''" "''label''" sample_expiration "sample_character ''bob''"
      "sample_key ''policy''" 2]
  by simp

section \<open>Publication: what the pool records (C7)\<close>

text \<open>
  For a publication task on a node the pool has not recorded yet: a response with
  status 201, or with another status and the attribute \<open>status\<close>, is recorded as a
  success; a response with a status other than 201 and without the attribute
  \<open>status\<close> is recorded as a failure, the transport call having returned; and an
  exception of the transport call is recorded as a failure.
\<close>

lemma publication_task_recorded:
  assumes "node \<notin> fst ` set (successes pool)" and "node \<notin> fst ` set (failures pool)"
  shows "(\<forall>response. network_middleware node payload = Inr response
             \<and> (status_code response = 201 \<or> status response \<noteq> None) \<longrightarrow>
            successes (snd (WorkerPool_run_task
               (put_treasure_map_on_node network_middleware payload) node pool))
              = successes pool @ [(node, response)]
          \<and> failures (snd (WorkerPool_run_task
               (put_treasure_map_on_node network_middleware payload) node pool)) = failures pool)
       \<and> (\<forall>response. network_middleware node payload = Inr response
             \<and> status_code response \<noteq> 201 \<and> status response = None \<longrightarrow>
            successes (snd (WorkerPool_run_task
               (put_treasure_map_on_node network_middleware payload) node pool)) = successes pool
          \<and> map fst (failures (snd (WorkerPool_run_task
               (put_treasure_map_on_node network_middleware payload) node pool)))
              = map fst (failures pool) @ [node])
       \<and> (\<forall>e. network_middleware node payload = Inl e \<longrightarrow>
            failures (snd (WorkerPool_run_task
               (put_treasure_map_on_node network_middleware payload) node pool))
              = failures pool @ [(node, e)]
          \<and> successes (snd (WorkerPool_run_task
               (put_treasure_map_on_node network_middleware payload) node pool)) = successes pool)"
  using assms
  by (auto simp: WorkerPool_run_task_def put_treasure_map_on_node_def update_fresh
      split: option.splits)

text \<open>
  C7. A reachable peer that answers 404 with a response of the \<open>requests\<close> library,
  which has no attribute \<open>status\<close>, is not recorded as a success: the worker raises
  \<open>AttributeError\<close> while it formats the warning, no warning is logged, and the pool
  records a failure for the node.
\<close>

theorem response_without_status_recorded_as_failure:
  "put_treasure_map_on_node (\<lambda>node payload. Inr ((sample_response 404)\<lparr>status := None\<rparr>))
      ''map'' (sample_ursula ''0xA'')
     = ([], Inl (Exc AttributeError
          (Some ([CHR 0x27] @ ''Response'' @ [CHR 0x27] @ '' object has no attribute ''
                 @ [CHR 0x27] @ ''status'' @ [CHR 0x27]))))
   \<and> snd (WorkerPool_run_task
        (put_treasure_map_on_node
           (\<lambda>node payload. Inr ((sample_response 404)\<lparr>status := None\<rparr>)) ''map'')
        (sample_ursula ''0xA'') sample_pool)
     = sample_pool\<lparr>failures :=
         [(sample_ursula ''0xA'',
           Exc AttributeError
             (Some ([CHR 0x27] @ ''Response'' @ [CHR 0x27] @ '' object has no attribute ''
                    @ [CHR 0x27] @ ''status'' @ [CHR 0x27])))]\<rparr>"
  by (simp add: put_treasure_map_on_node_def WorkerPool_run_task_def sample_response_def
      sample_pool_def)

section \<open>The policy's hrac (C8)\<close>

text \<open>
  C8. Two constructions of a \<open>Policy\<close> with the same publisher verifying key, the
  same recipient verifying key and the same label derive the same hrac, whatever
  their other arguments are: the hrac is \<open>derive_hrac\<close> of exactly those three.
\<close>

theorem hrac_deterministic:
  assumes "as_umbral_pubkey (stamp alice1) = as_umbral_pubkey (stamp alice2)"
    and "as_umbral_pubkey (stamp bob1) = as_umbral_pubkey (stamp bob2)"
  shows "hrac (Policy_init cpi1 hash_of alice1 lbl expires1 bob1 frags1 pk1 m1)
       = hrac (Policy_init cpi2 hash_of alice2 lbl expires2 bob2 frags2 pk2 m2)
     \<and> hrac (Policy_init cpi1 hash_of alice1 lbl expires1 bob1 frags1 pk1 m1)
       = derive_hrac hash_of (as_umbral_pubkey (stamp alice1)) (as_umbral_pubkey (stamp bob1)) lbl"
  using assms by (simp add: Policy_init_def)

theorem hrac_deterministic_witness:
  "hrac (Policy_init (\<lambda>lbl key. lbl @ key) (\<lambda>(a, b, c). a @ b @ c)
           (sample_character ''alice'') ''label'' sample_expiration (sample_character ''bob'')
           [sample_kfrag] (sample_key ''policy'') 1)
   = hrac (Policy_init (\<lambda>lbl key. key @ lbl) (\<lambda>(a, b, c). a @ b @ c)
           ((sample_character ''alice'')\<lparr>known_nodes := [(''0xA'', sample_ursula ''0xA'')]\<rparr>)
           ''label'' \<lparr>iso8601 = ''2022-01-01T00:00:00Z'', epoch = 1640995200\<rparr>
           (sample_character ''bob'')
           [sample_kfrag, sample_kfrag] (sample_key ''other policy'') 2)"
proof -
  have same_alice: "as_umbral_pubkey (stamp (sample_character ''alice''))
      = as_umbral_pubkey (stamp ((sample_character ''alice'')
          \<lparr>known_nodes := [(''0xA'', sample_ursula ''0xA'')]\<rparr>))"
    by simp
  show ?thesis
    using hrac_deterministic [OF same_alice refl] by (rule conjunct1)
qed

section \<open>The bytes of an arrangement (C9)\<close>

lemma from_bytes4_to_bytes4:
  assumes "k < 4294967296"
  shows "from_bytes4 (to_bytes4 k) = k"
proof -
  have top: "k div 16777216 mod 256 = k div 16777216"
    using assms by (simp add: less_mult_imp_div_less)
  have d2: "k div 65536 = k div 256 div 256"
    by (simp add: div_mult2_eq)
  have d3: "k div 16777216 = k div 65536 div 256"
    by (simp add: div_mult2_eq)
  have s1: "k div 256 * 256 + k mod 256 = k"
    by simp
  have s2: "k div 65536 * 256 + k div 256 mod 256 = k div 256"
    unfolding d2 by simp
  have s3: "k div 16777216 * 256 + k div 65536 mod 256 = k div 65536"
    unfolding d3 by simp
  have "from_bytes4 (to_bytes4 k)
      = ((k div 16777216 mod 256 * 256 + k div 65536 mod 256) * 256 + k div 256 mod 256) * 256
        + k mod 256"
    by (simp add: from_bytes4_def to_bytes4_def)
  also have "\<dots> = k"
    by (simp only: top s3 s2 s1)
  finally show ?thesis .
qed

lemma length_to_bytes4: "length (to_bytes4 k) = 4"
  by (simp add: to_bytes4_def)

lemma split_variable_framed:
  assumes "length message < 4294967296"
  shows "split_variable (to_bytes4 (length message) @ message) = Inr (message, [])"
  using assms
  by (simp add: split_variable_def split_fixed_def length_to_bytes4 from_bytes4_to_bytes4)

text \<open>
  C9. The bytes of an arrangement are the bytes of its publisher verifying key
  followed by the length-prefixed ISO-8601 text of its expiration, a function of
  those two alone; and \<open>Arrangement.from_bytes\<close> on these bytes gives back an
  arrangement with the same key and the same expiration. The libraries' own
  contracts are hypotheses: the key serializes to \<open>PublicKey.serialized_size()\<close>
  bytes that \<open>PublicKey.from_bytes\<close> parses back, \<open>MayaDT.from_iso8601\<close> parses the
  text \<open>iso8601()\<close> gives back to the timestamp, and that text is shorter than
  \<open>2 ^ 32\<close> bytes.
\<close>

theorem arrangement_round_trip:
  assumes key_size: "length (key_bytes (publisher_verifying_key a)) = key_size"
    and key_parse: "PublicKey_from_bytes (key_bytes (publisher_verifying_key a))
                    = Inr (publisher_verifying_key a)"
    and iso_parse: "from_iso8601 (iso8601 (expiration a)) = Inr (expiration a)"
    and iso_size: "length (iso8601 (expiration a)) < 4294967296"
  shows "Arrangement_bytes a
           = Inr (key_bytes (publisher_verifying_key a)
                  @ to_bytes4 (length (iso8601 (expiration a))) @ iso8601 (expiration a))
       \<and> (\<exists>b. Arrangement_bytes a = Inr b
              \<and> Arrangement_from_bytes key_size PublicKey_from_bytes from_iso8601 b = Inr a)"
proof -
  let ?key = "key_bytes (publisher_verifying_key a)"
  let ?iso = "iso8601 (expiration a)"
  let ?b = "?key @ to_bytes4 (length ?iso) @ ?iso"
  have bytes: "Arrangement_bytes a = Inr ?b"
    using iso_size by (simp add: Arrangement_bytes_def VariableLengthBytestring_def)
  have cut: "split_fixed key_size ?b = Inr (?key, to_bytes4 (length ?iso) @ ?iso)"
    using key_size by (simp add: split_fixed_def)
  have split: "splitter key_size PublicKey_from_bytes ?b = Inr (publisher_verifying_key a, ?iso)"
    using cut key_parse split_variable_framed [OF iso_size] by (simp add: splitter_def)
  have "Arrangement_from_bytes key_size PublicKey_from_bytes from_iso8601 ?b = Inr a"
    using split iso_parse by (simp add: Arrangement_from_bytes_def)
  with bytes show ?thesis by simp
qed

theorem arrangement_round_trip_witness:
  "length (key_bytes (publisher_verifying_key sample_arrangement)) = 9
   \<and> (\<exists>b. Arrangement_bytes sample_arrangement = Inr b
          \<and> Arrangement_from_bytes 9 (\<lambda>b. Inr (sample_key b)) sample_from_iso8601 b
            = Inr sample_arrangement)"
proof -
  have key_size: "length (key_bytes (publisher_verifying_key sample_arrangement)) = 9"
    by (simp add: sample_arrangement_def sample_key_def)
  have key_parse: "(\<lambda>b. Inr (sample_key b)) (key_bytes (publisher_verifying_key sample_arrangement))
      = Inr (publisher_verifying_key sample_arrangement)"
    by (simp add: sample_arrangement_def sample_key_def)
  have iso_parse: "sample_from_iso8601 (iso8601 (expiration sample_arrangement))
      = Inr (expiration sample_arrangement)"
    by (simp add: sample_arrangement_def sample_from_iso8601_def)
  have iso_size: "length (iso8601 (expiration sample_arrangement)) < 4294967296"
    by (simp add: sample_arrangement_def sample_expiration_def)
  note round_trip = arrangement_round_trip
      [of sample_arrangement 9 "\<lambda>b. Inr (sample_key b)" sample_from_iso8601,
       OF key_size key_parse iso_parse iso_size]
  show ?thesis
    using key_size round_trip [THEN conjunct2] by (rule conjI)
qed

section \<open>The external IP address (C10)\<close>

text \<open>
  Where the sample can be drawn (no known nodes, or at least three), \<open>requests.get\<close>
  raises nothing but the caught \<open>RequestErrors\<close> and the contact with the teacher
  does not raise, the function is the cascade: of the hosts that the known nodes
  (asked only when there are any), the default teacher and the centralized service
  yield, it returns the first that is not empty, and it raises \<open>UnknownIPAddress\<close>
  exactly when none is.
\<close>

lemma url_source_answers:
  assumes "\<forall>url e. requests_get url = Inl e \<longrightarrow> is_request_error (exc_class_of e)"
  shows "\<exists>ip. get_external_ip_from_url_source requests_get url = Inr ip"
  using assms by (cases "requests_get url") (auto simp: get_external_ip_from_url_source_def)

lemma first_ip_of_answers:
  assumes "\<forall>url e. requests_get url = Inl e \<longrightarrow> is_request_error (exc_class_of e)"
  shows "\<exists>ip. first_ip_of requests_get sampled = Inr ip"
proof (induction sampled)
  case Nil
  show ?case by simp
next
  case (Cons node rest)
  obtain ip where "get_external_ip_from_url_source requests_get (rest_url node) = Inr ip"
    using url_source_answers [OF assms, of "rest_url node"] by auto
  then show ?case
    using Cons.IH by (cases "host_found ip") simp_all
qed

lemma default_teacher_answers:
  assumes "\<forall>url e. ping_teacher url \<noteq> Inl e"
  shows "\<exists>ip. get_external_ip_from_default_teacher TEACHER_NODES ping_teacher network = Inr ip"
proof (cases "map_of TEACHER_NODES network")
  case None
  then show ?thesis by (simp add: get_external_ip_from_default_teacher_def)
next
  case (Some urls)
  show ?thesis
  proof (cases urls)
    case Nil
    with Some show ?thesis by (simp add: get_external_ip_from_default_teacher_def)
  next
    case (Cons top others)
    obtain response where "ping_teacher top = Inr response"
      using assms by (cases "ping_teacher top") auto
    with Some Cons show ?thesis
      by (simp add: get_external_ip_from_default_teacher_def)
  qed
qed

lemma ip_cascade:
  assumes enough: "nodes = [] \<or> 3 \<le> length nodes"
    and caught: "\<forall>url e. requests_get url = Inl e \<longrightarrow> is_request_error (exc_class_of e)"
    and teacher_answers: "\<forall>url e. ping_teacher url \<noteq> Inl e"
  shows "\<exists>known teacher central.
           (if nodes = [] then known = None
            else get_external_ip_from_known_nodes pick requests_get nodes 3 = Inr known)
         \<and> get_external_ip_from_default_teacher TEACHER_NODES ping_teacher network = Inr teacher
         \<and> get_external_ip_from_centralized_source requests_get = Inr central
         \<and> determine_external_ip_address pick requests_get TEACHER_NODES ping_teacher network nodes
             = (case filter host_found [known, teacher, central] of
                  Some host # others \<Rightarrow> Inr host
                | _ \<Rightarrow> Inl (Exc UnknownIPAddress (Some ''External IP address detection failed'')))"
proof -
  obtain teacher where t: "get_external_ip_from_default_teacher TEACHER_NODES ping_teacher network
      = Inr teacher"
    using default_teacher_answers [OF teacher_answers, of TEACHER_NODES network] by auto
  obtain central where c: "get_external_ip_from_centralized_source requests_get = Inr central"
    using url_source_answers [OF caught]
    by (auto simp: get_external_ip_from_centralized_source_def)
  obtain known where k: "if nodes = [] then known = None
      else get_external_ip_from_known_nodes pick requests_get nodes 3 = Inr known"
  proof (cases "nodes = []")
    case True
    then show ?thesis using that [of None] by simp
  next
    case False
    with enough have "\<not> length nodes < 3" by simp
    then have "get_external_ip_from_known_nodes pick requests_get nodes 3
        = first_ip_of requests_get (pick nodes 3)"
      by (simp add: get_external_ip_from_known_nodes_def random_sample_def)
    then show ?thesis
      using first_ip_of_answers [OF caught, of "pick nodes 3"] False that by auto
  qed
  have "determine_external_ip_address pick requests_get TEACHER_NODES ping_teacher network nodes
      = (case filter host_found [known, teacher, central] of
           Some host # others \<Rightarrow> Inr host
         | _ \<Rightarrow> Inl (Exc UnknownIPAddress (Some ''External IP address detection failed'')))"
    using t c k
    by (cases "nodes = []")
      (auto simp: determine_external_ip_address_def host_found_def split: option.splits)
  with t c k show ?thesis
    by (intro exI conjI)
qed

lemma ip_cascade_example:
  "determine_external_ip_address (\<lambda>population k. take k population)
     (\<lambda>url. if url = ''https://0xB'' then Inr (sample_response 200)
            else Inl (Exc ConnectionError (Some ''refused'')))
     [(''lynx'', [''https://lynx.example:9151''])]
     (\<lambda>url. Inr (sample_response 200))
     ''lynx''
     [sample_ursula ''0xA'', sample_ursula ''0xB'', sample_ursula ''0xC'']
   = Inr ''203.0.113.7''"
proof -
  have enough: "[sample_ursula ''0xA'', sample_ursula ''0xB'', sample_ursula ''0xC''] = []
      \<or> 3 \<le> length [sample_ursula ''0xA'', sample_ursula ''0xB'', sample_ursula ''0xC'']"
    by simp
  have caught: "\<forall>url e. (\<lambda>url. if url = ''https://0xB'' then Inr (sample_response 200)
            else Inl (Exc ConnectionError (Some ''refused''))) url = Inl e
          \<longrightarrow> is_request_error (exc_class_of e)"
    by (auto simp: is_request_error_def split: if_splits)
  have teacher_answers: "\<forall>url e. (\<lambda>url. Inr (sample_response 200)) url \<noteq> Inl e"
    by simp
  note cascade = ip_cascade [OF enough caught teacher_answers,
      of "\<lambda>population k. take k population" "[(''lynx'', [''https://lynx.example:9151''])]" "''lynx''"]
  have known: "get_external_ip_from_known_nodes (\<lambda>population k. take k population)
      (\<lambda>url. if url = ''https://0xB'' then Inr (sample_response 200)
            else Inl (Exc ConnectionError (Some ''refused'')))
      [sample_ursula ''0xA'', sample_ursula ''0xB'', sample_ursula ''0xC''] 3
      = Inr (Some ''203.0.113.7'')"
    by (simp add: get_external_ip_from_known_nodes_def random_sample_def
        get_external_ip_from_url_source_def is_request_error_def host_found_def
        sample_ursula_def sample_response_def)
  show ?thesis
    using cascade known by (auto simp: host_found_def)
qed

text \<open>
  C10. With one or two known nodes, \<open>determine_external_ip_address\<close> neither goes on
  to the default teacher nor raises \<open>UnknownIPAddress\<close>: the sample of three that
  \<open>get_external_ip_from_known_nodes\<close> asks of \<open>random.sample\<close> is larger than the
  population, and its \<open>ValueError\<close> leaves the function, whatever the other sources
  would have answered.
\<close>

theorem too_few_known_nodes:
  "determine_external_ip_address pick requests_get TEACHER_NODES ping_teacher network [node]
     = Inl (Exc ValueError (Some ''Sample larger than population or is negative''))
   \<and> determine_external_ip_address pick requests_get TEACHER_NODES ping_teacher network [node, node']
     = Inl (Exc ValueError (Some ''Sample larger than population or is negative''))"
  by (simp add: determine_external_ip_address_def get_external_ip_from_known_nodes_def
      random_sample_def)

end
